theory Spec2Isabelle
  imports Main "HOL-Library.Log_Nat" "HOL-Library.Sublist" "HOL-Library.Char_ord"
    "HOL-Library.List_Lexorder" "HOL-Library.Multiset"
begin

section \<open>JavaScript numbers\<close>

text \<open>
  Every number of the handlers (\<open>valorLocacao\<close>, \<open>valorTaxas\<close>, \<open>taxaPoupanca\<close> and the
  four derived values) is a JavaScript \<open>number\<close>, that is an IEEE 754 binary64 value, and the
  columns that hold them are \<open>DOUBLE PRECISION\<close>. A finite value is the rational it denotes;
  the two zeros are not distinguished (no handler divides or inspects a sign). The result of
  an arithmetic operation is the exact result rounded to the nearest representable value,
  ties to even: 53 significant bits, least exponent \<open>-1022\<close> (below it the spacing stays
  \<open>2^-1074\<close>), and a rounded magnitude of \<open>2^1024\<close> or more becomes an infinity.
\<close>

datatype number = Finite rat | PosInfinity | NegInfinity | NotANumber

definition ilog2 :: "rat \<Rightarrow> int" where
  \<comment> \<open>\<open>\<lfloor>log\<^sub>2 x\<rfloor>\<close> for \<open>0 < x\<close>\<close>
  "ilog2 x = (if 1 \<le> x then bitlen \<lfloor>x\<rfloor> - 1 else - bitlen (\<lceil>1 / x\<rceil> - 1))"

definition pow2 :: "int \<Rightarrow> rat" where
  "pow2 e = (if 0 \<le> e then 2 ^ nat e else 1 / 2 ^ nat (- e))"

definition round_half_even :: "rat \<Rightarrow> int" where
  "round_half_even x =
     (let f = \<lfloor>x\<rfloor>; d = x - of_int f
      in if d < 1 / 2 then f else if 1 / 2 < d then f + 1 else if even f then f else f + 1)"

definition round_to_double :: "rat \<Rightarrow> number" where
  "round_to_double q =
     (if q = 0 then Finite 0
      else let e = max (ilog2 \<bar>q\<bar>) (- 1022);
               ulp = pow2 (e - 52);
               r = of_int (round_half_even (q / ulp)) * ulp
           in if pow2 1024 \<le> \<bar>r\<bar> then (if 0 < q then PosInfinity else NegInfinity)
              else Finite r)"

text \<open>The operator \<open>+\<close> of the source.\<close>

fun num_add :: "number \<Rightarrow> number \<Rightarrow> number" where
  "num_add NotANumber _ = NotANumber"
| "num_add _ NotANumber = NotANumber"
| "num_add PosInfinity NegInfinity = NotANumber"
| "num_add NegInfinity PosInfinity = NotANumber"
| "num_add PosInfinity _ = PosInfinity"
| "num_add _ PosInfinity = PosInfinity"
| "num_add NegInfinity _ = NegInfinity"
| "num_add _ NegInfinity = NegInfinity"
| "num_add (Finite a) (Finite b) = round_to_double (a + b)"

text \<open>The operator \<open>*\<close> of the source: an infinity times zero is \<open>NaN\<close>.\<close>

fun num_sign :: "number \<Rightarrow> int" where
  "num_sign (Finite a) = (if a = 0 then 0 else if 0 < a then 1 else - 1)"
| "num_sign PosInfinity = 1"
| "num_sign NegInfinity = - 1"
| "num_sign NotANumber = 0"

fun num_mul :: "number \<Rightarrow> number \<Rightarrow> number" where
  "num_mul NotANumber _ = NotANumber"
| "num_mul _ NotANumber = NotANumber"
| "num_mul (Finite a) (Finite b) = round_to_double (a * b)"
| "num_mul x y =
     (if num_sign x = 0 \<or> num_sign y = 0 then NotANumber
      else if num_sign x = num_sign y then PosInfinity else NegInfinity)"

text \<open>
  A decimal literal of the source or of a JSON body denotes the nearest double:
  \<open>0.005\<close> is \<open>round_to_double (1 / 200)\<close>.
\<close>

definition literal :: "rat \<Rightarrow> number" where
  "literal q = round_to_double q"

text \<open>\<open>z.number()\<close> rejects \<open>NaN\<close>; \<open>.positive()\<close> asks for \<open>> 0\<close>.\<close>

fun z_number :: "number \<Rightarrow> bool" where
  "z_number NotANumber = False"
| "z_number _ = True"

fun z_positive :: "number \<Rightarrow> bool" where
  "z_positive (Finite a) = (0 < a)"
| "z_positive PosInfinity = True"
| "z_positive _ = False"

section \<open>Data model\<close>

text \<open>
  The three tables of the migration. A string is the list of its characters; an identifier
  is the \<open>TEXT\<close> primary key that the database client generates; a timestamp is a number
  of milliseconds. A table is the list of its rows. The place of a row in the list says
  nothing about the order in which a query returns it: where \<open>ORDER BY\<close> does not
  separate two rows, their order is the store's choice at that query (the parameter \<open>pos\<close>
  of \<open>findMany\<close> below).
\<close>

datatype role = Admin | User

record usuario =
  usuario_id :: string
  usuario_nome :: string
  usuario_email :: string
  usuario_senha :: string
  usuario_role :: role
  usuario_createdAt :: int
  usuario_updatedAt :: int

record cliente =
  cliente_id :: string
  cliente_nome :: string
  cliente_telefone :: string
  cliente_cpf :: string
  cliente_email :: string
  cliente_createdAt :: int
  cliente_updatedAt :: int

record calculo =
  calculo_id :: string
  valorLocacao :: number
  valorTaxas :: number
  valorInicial :: number
  valorOriginal :: number
  valorComDesconto :: number
  valorCorrigido :: number
  taxaPoupanca :: number
  clienteId :: string
  usuarioId :: "string option"
  calculo_createdAt :: int
  calculo_updatedAt :: int

record prisma =
  usuarios :: "usuario list"
  clientes :: "cliente list"
  calculos :: "calculo list"

text \<open>
  The migration also declares the primary keys and the unique indexes on
  \<open>usuarios.email\<close> and \<open>clientes.cpf\<close> (the theorems that need one of them assume
  that the column holds no duplicates), and the two foreign keys of \<open>calculos\<close>:
\<close>

definition foreign_keys :: "prisma \<Rightarrow> bool" where
  "foreign_keys db \<longleftrightarrow>
     list_all (\<lambda>k. clienteId k \<in> set (map cliente_id (clientes db)) \<and>
                   (case usuarioId k of None \<Rightarrow> True
                    | Some u \<Rightarrow> u \<in> set (map usuario_id (usuarios db)))) (calculos db)"

section \<open>Responses\<close>

text \<open>
  The \<open>message\<close> strings of the modelled handlers, one constructor each (written here
  without their accents):
  \<^item> \<open>TokenDeAcessoRequerido\<close>: "Token de acesso requerido";
  \<^item> \<open>TokenInvalido\<close>: "Token invalido";
  \<^item> \<open>AcessoNegado\<close>: "Acesso negado. Apenas administradores podem acessar esta rota.";
  \<^item> \<open>ErroInterno\<close>: "Erro interno do servidor";
  \<^item> \<open>DadosInvalidos\<close>: "Dados invalidos";
  \<^item> \<open>UsuarioNaoEncontrado\<close>, \<open>ClienteNaoEncontrado\<close>, \<open>CalculoNaoEncontrado\<close>:
    "Usuario nao encontrado", "Cliente nao encontrado", "Calculo nao encontrado";
  \<^item> \<open>EmailEmUso\<close>: "Email ja esta sendo usado";
  \<^item> \<open>NaoPodeExcluirPropriaConta\<close>: "Voce nao pode excluir sua propria conta";
  \<^item> \<open>ClientePossuiCalculos\<close>: "Nao e possivel deletar cliente que possui calculos";
  \<^item> \<open>UsuarioAtualizado\<close>, \<open>UsuarioExcluido\<close>, \<open>ClienteDeletado\<close>, \<open>CalculoCriado\<close>,
    \<open>CalculoDeletado\<close>: "Usuario atualizado com sucesso!", "Usuario excluido com sucesso!",
    "Cliente deletado com sucesso!", "Calculo criado com sucesso!",
    "Calculo deletado com sucesso!".
\<close>

datatype message =
    TokenDeAcessoRequerido | TokenInvalido | AcessoNegado | ErroInterno | DadosInvalidos
  | UsuarioNaoEncontrado | ClienteNaoEncontrado | CalculoNaoEncontrado
  | EmailEmUso | NaoPodeExcluirPropriaConta | ClientePossuiCalculos
  | UsuarioAtualizado | UsuarioExcluido | ClienteDeletado | CalculoCriado | CalculoDeletado

text \<open>
  The JSON envelope \<open>{success, data, message, pagination}\<close> with its HTTP status. Of
  \<open>pagination\<close> the fields \<open>page\<close>, \<open>limit\<close> and \<open>total\<close> are kept; \<open>pages\<close> is
  derived from the last two. The \<open>errors\<close> and \<open>error\<close> details of a 400 or 500 are
  left out.
\<close>

record pagination =
  page :: int
  limit :: int
  total :: nat

record 'a response =
  status :: nat
  success :: bool
  message :: "message option"
  data :: "'a option"
  pagination :: "pagination option"

definition fail :: "nat \<Rightarrow> message \<Rightarrow> 'a response" where
  "fail code m =
     \<lparr>status = code, success = False, message = Some m, data = None, pagination = None\<rparr>"

definition ok :: "nat \<Rightarrow> message option \<Rightarrow> 'a option \<Rightarrow> 'a response" where
  "ok code m d = \<lparr>status = code, success = True, message = m, data = d, pagination = None\<rparr>"

section \<open>The database client\<close>

text \<open>
  The operations of the database client that the handlers call, on the tables above. An
  insert or update that would break a primary key, a unique index or a foreign key throws;
  a throw is \<open>None\<close> here and the handler's \<open>catch\<close> turns it into a 500. The deletes
  carry the \<open>ON DELETE\<close> actions of the migration: removing a client removes its
  calculations (\<open>CASCADE\<close>), removing a user clears the \<open>usuarioId\<close> of the calculations
  that user created (\<open>SET NULL\<close>). An update keeps the row at its place in the list
  and an insert puts the new row last; where the store really keeps a new or rewritten
  row shows only in the order in which a later query reads the rows, which is the
  parameter \<open>pos\<close> of \<open>findMany\<close>, free at every query.
\<close>

record cliente_dados =
  nome :: string
  telefone :: string
  cpf :: string
  email :: string

definition cliente_create ::
  "prisma \<Rightarrow> int \<Rightarrow> string \<Rightarrow> cliente_dados \<Rightarrow> (prisma \<times> cliente) option" where
  "cliente_create db agora novo_id dados =
     (if novo_id \<in> set (map cliente_id (clientes db)) \<or>
         cpf dados \<in> set (map cliente_cpf (clientes db)) then None
      else let r = \<lparr>cliente_id = novo_id, cliente_nome = nome dados,
                      cliente_telefone = telefone dados, cliente_cpf = cpf dados,
                      cliente_email = email dados, cliente_createdAt = agora,
                      cliente_updatedAt = agora\<rparr>
           in Some (db\<lparr>clientes := clientes db @ [r]\<rparr>, r))"

definition cliente_set :: "int \<Rightarrow> cliente_dados \<Rightarrow> cliente \<Rightarrow> cliente" where
  "cliente_set agora dados r =
     r\<lparr>cliente_nome := nome dados, cliente_telefone := telefone dados,
       cliente_cpf := cpf dados, cliente_email := email dados, cliente_updatedAt := agora\<rparr>"

definition cliente_update_by_cpf ::
  "prisma \<Rightarrow> int \<Rightarrow> string \<Rightarrow> cliente_dados \<Rightarrow> (prisma \<times> cliente) option" where
  "cliente_update_by_cpf db agora c dados =
     (case find (\<lambda>r. cliente_cpf r = c) (clientes db) of
        None \<Rightarrow> None
      | Some r \<Rightarrow>
          if cpf dados \<noteq> c \<and> cpf dados \<in> set (map cliente_cpf (clientes db)) then None
          else Some (db\<lparr>clientes := map (\<lambda>x. if cliente_cpf x = c then cliente_set agora dados x
                                                 else x) (clientes db)\<rparr>,
                     cliente_set agora dados r))"

definition cliente_delete :: "prisma \<Rightarrow> string \<Rightarrow> prisma" where
  "cliente_delete db i =
     db\<lparr>clientes := filter (\<lambda>r. cliente_id r \<noteq> i) (clientes db),
        calculos := filter (\<lambda>k. clienteId k \<noteq> i) (calculos db)\<rparr>"

definition usuario_delete :: "prisma \<Rightarrow> string \<Rightarrow> prisma" where
  "usuario_delete db i =
     db\<lparr>usuarios := filter (\<lambda>u. usuario_id u \<noteq> i) (usuarios db),
        calculos := map (\<lambda>k. if usuarioId k = Some i then k\<lparr>usuarioId := None\<rparr> else k)
                        (calculos db)\<rparr>"

definition calculo_delete :: "prisma \<Rightarrow> string \<Rightarrow> prisma" where
  "calculo_delete db i = db\<lparr>calculos := filter (\<lambda>k. calculo_id k \<noteq> i) (calculos db)\<rparr>"

definition usuario_update ::
  "prisma \<Rightarrow> int \<Rightarrow> string \<Rightarrow> string \<Rightarrow> string \<Rightarrow> role \<Rightarrow> string option \<Rightarrow>
     (prisma \<times> usuario) option" where
  "usuario_update db agora i n e r s =
     (case find (\<lambda>u. usuario_id u = i) (usuarios db) of
        None \<Rightarrow> None
      | Some u \<Rightarrow>
          if list_ex (\<lambda>v. usuario_id v \<noteq> i \<and> usuario_email v = e) (usuarios db) then None
          else let upd = (\<lambda>v. v\<lparr>usuario_nome := n, usuario_email := e, usuario_role := r,
                                  usuario_senha := (case s of None \<Rightarrow> usuario_senha v
                                                    | Some h \<Rightarrow> h),
                                  usuario_updatedAt := agora\<rparr>)
               in Some (db\<lparr>usuarios := map (\<lambda>v. if usuario_id v = i then upd v else v)
                                            (usuarios db)\<rparr>, upd u))"

definition calculo_create :: "prisma \<Rightarrow> calculo \<Rightarrow> (prisma \<times> calculo) option" where
  "calculo_create db k =
     (if calculo_id k \<in> set (map calculo_id (calculos db)) \<or>
         clienteId k \<notin> set (map cliente_id (clientes db)) \<or>
         (case usuarioId k of None \<Rightarrow> False
          | Some u \<Rightarrow> u \<notin> set (map usuario_id (usuarios db))) then None
      else Some (db\<lparr>calculos := calculos db @ [k]\<rparr>, k))"

text \<open>
  \<open>findMany\<close> with \<open>where\<close>, \<open>orderBy: {createdAt: 'desc'}\<close>, \<open>skip\<close> and \<open>take\<close>
  becomes \<open>SELECT ... WHERE ... ORDER BY createdAt DESC LIMIT take OFFSET skip\<close>. SQL
  leaves the order of rows with the same \<open>createdAt\<close> to the store: \<open>pos\<close> is the place
  at which the store reads each row in this query, and rows that the sort key does not
  separate come by ascending \<open>pos\<close>. A negative \<open>skip\<close> is refused. For a negative
  \<open>take\<close> the client asks for the opposite order (\<open>ORDER BY createdAt ASC\<close>), cuts the
  window there and reverses the rows it got.
\<close>

definition orderBy_desc :: "('r \<Rightarrow> int) \<Rightarrow> ('r \<Rightarrow> int) \<Rightarrow> 'r list \<Rightarrow> 'r list" where
  "orderBy_desc pos key rows = sort_key (\<lambda>r. - key r) (sort_key pos rows)"

definition orderBy_asc :: "('r \<Rightarrow> int) \<Rightarrow> ('r \<Rightarrow> int) \<Rightarrow> 'r list \<Rightarrow> 'r list" where
  "orderBy_asc pos key rows = sort_key key (sort_key pos rows)"

definition findMany ::
  "('r \<Rightarrow> int) \<Rightarrow> ('r \<Rightarrow> bool) \<Rightarrow> ('r \<Rightarrow> int) \<Rightarrow> int \<Rightarrow> int \<Rightarrow> 'r list \<Rightarrow> 'r list option"
  where
  "findMany pos wh key s t rows =
     (if s < 0 then None
      else if 0 \<le> t
        then Some (take (nat t) (drop (nat s) (orderBy_desc pos key (filter wh rows))))
        else Some (rev (take (nat (- t)) (drop (nat s) (orderBy_asc pos key (filter wh rows))))))"

definition count_rows :: "('r \<Rightarrow> bool) \<Rightarrow> 'r list \<Rightarrow> nat" where
  "count_rows wh rows = length (filter wh rows)"

text \<open>
  The string filter \<open>contains\<close>. On PostgreSQL \<open>{contains: s}\<close> is \<open>LIKE\<close> with the
  pattern \<open>%s%\<close>, and with \<open>mode: 'insensitive'\<close> it is \<open>ILIKE\<close> with the same pattern.
  The search string goes into the pattern as it is, so its own \<open>%\<close> (any run of
  characters), \<open>_\<close> (any one character) and backslash (the next character of the
  pattern stands for itself) act as pattern characters. \<open>like lower p x\<close> matches the
  whole of \<open>x\<close> against the pattern \<open>p\<close>; two characters are the same when \<open>lower\<close>
  maps them to the same one. For \<open>LIKE\<close>, \<open>lower\<close> is the identity; for \<open>ILIKE\<close> it is
  the case folding of the store, which depends on the locale of the database and is a
  parameter of the handler. A pattern that ends in a lone backslash is an error of the
  store (\<open>None\<close>); no pattern \<open>%s%\<close> does (\<open>like_total\<close> below). \<open>_\<close> stands
  for one character of the field, which is one element of the list.
\<close>

fun like :: "(char \<Rightarrow> char) \<Rightarrow> string \<Rightarrow> string \<Rightarrow> bool option" where
  "like lower [] x = Some (x = [])"
| "like lower (p # ps) x =
     (if p = CHR ''%'' then
        (case like lower ps x of
           None \<Rightarrow> None
         | Some True \<Rightarrow> Some True
         | Some False \<Rightarrow>
             (case x of [] \<Rightarrow> Some False | _ # x' \<Rightarrow> like lower (p # ps) x'))
      else if p = CHR ''_'' then
        (case x of [] \<Rightarrow> Some False | _ # x' \<Rightarrow> like lower ps x')
      else if p = CHR 0x5C then
        (case ps of
           [] \<Rightarrow> None
         | q # qs \<Rightarrow>
             (case x of
                [] \<Rightarrow> Some False
              | c # x' \<Rightarrow> if lower c = lower q then like lower qs x' else Some False))
      else
        (case x of
           [] \<Rightarrow> Some False
         | c # x' \<Rightarrow> if lower c = lower p then like lower ps x' else Some False))"

definition contains :: "(char \<Rightarrow> char) \<Rightarrow> string \<Rightarrow> string \<Rightarrow> bool" where
  "contains lower field s \<longleftrightarrow> like lower (''%'' @ s @ ''%'') field = Some True"

text \<open>A search string none of whose characters is a pattern character.\<close>

definition no_pattern_char :: "string \<Rightarrow> bool" where
  "no_pattern_char s \<longleftrightarrow>
     list_all (\<lambda>c. c \<noteq> CHR ''%'' \<and> c \<noteq> CHR ''_'' \<and> c \<noteq> CHR 0x5C) s"

section \<open>Authentication and the user routes\<close>

text \<open>
  \<open>jwt.verify\<close> with the server's key is a parameter: \<open>None\<close> when it throws (a bad
  signature, an expired or malformed token), otherwise the decoded payload, which
  \<open>jwt.sign\<close> built from \<open>userId\<close> and \<open>email\<close>.
\<close>

record jwt_payload =
  userId :: string
  payload_email :: string

text \<open>\<open>req.usuario\<close>: the columns that the middleware selects.\<close>

record req_usuario =
  ru_id :: string
  ru_nome :: string
  ru_email :: string
  ru_role :: role

text \<open>
  \<open>subject.replace(pat, rep)\<close> with a string pattern replaces the first occurrence of
  \<open>pat\<close> in \<open>subject\<close>, wherever it is.
\<close>

fun replace_first :: "string \<Rightarrow> string \<Rightarrow> string \<Rightarrow> string" where
  "replace_first pat rep [] = (if pat = [] then rep else [])"
| "replace_first pat rep (c # s) =
     (if prefix pat (c # s) then rep @ drop (length pat) (c # s)
      else c # replace_first pat rep s)"

text \<open>
  \<open>authMiddleware\<close>: \<open>Inl\<close> is the response sent instead of calling \<open>next\<close>, \<open>Inr\<close>
  is \<open>req.usuario\<close>. The header is absent (\<open>None\<close>) or a string; \<open>!authHeader\<close> holds
  for the empty string too.
\<close>

definition authMiddleware ::
  "(string \<Rightarrow> jwt_payload option) \<Rightarrow> prisma \<Rightarrow> string option \<Rightarrow> 'a response + req_usuario"
  where
  "authMiddleware jwt_verify db authorization =
     (case authorization of
        None \<Rightarrow> Inl (fail 401 TokenDeAcessoRequerido)
      | Some authHeader \<Rightarrow>
          if authHeader = [] then Inl (fail 401 TokenDeAcessoRequerido)
          else let token = replace_first ''Bearer '' [] authHeader
               in case jwt_verify token of
                    None \<Rightarrow> Inl (fail 401 TokenInvalido)
                  | Some decoded \<Rightarrow>
                      (case find (\<lambda>u. usuario_id u = userId decoded) (usuarios db) of
                         None \<Rightarrow> Inl (fail 401 TokenInvalido)
                       | Some u \<Rightarrow>
                           Inr \<lparr>ru_id = usuario_id u, ru_nome = usuario_nome u,
                                ru_email = usuario_email u, ru_role = usuario_role u\<rparr>))"

text \<open>\<open>adminMiddleware\<close>: \<open>Some\<close> is the 403 sent, \<open>None\<close> is \<open>next()\<close>.\<close>

definition adminMiddleware :: "prisma \<Rightarrow> req_usuario \<Rightarrow> 'a response option" where
  "adminMiddleware db ru =
     (case find (\<lambda>u. usuario_id u = ru_id ru) (usuarios db) of
        None \<Rightarrow> Some (fail 403 AcessoNegado)
      | Some u \<Rightarrow> if usuario_role u \<noteq> Admin then Some (fail 403 AcessoNegado) else None)"

text \<open>
  The body of \<open>PUT /api/usuarios/:id\<close> as \<open>usuarioAdminUpdateSchema\<close> types it: \<open>senha\<close>
  and \<open>role\<close> may be absent. The e-mail check of the validation library is a parameter.
\<close>

record usuario_update_body =
  upd_nome :: string
  upd_email :: string
  upd_senha :: "string option"
  upd_role :: "role option"

definition usuarioAdminUpdateSchema :: "(string \<Rightarrow> bool) \<Rightarrow> usuario_update_body \<Rightarrow> bool" where
  "usuarioAdminUpdateSchema is_email b \<longleftrightarrow>
     2 \<le> length (upd_nome b) \<and> is_email (upd_email b) \<and>
     (case upd_senha b of None \<Rightarrow> True | Some s \<Rightarrow> 6 \<le> length s \<or> s = [])"

text \<open>
  \<open>trim\<close> removes the white space at both ends: of the code units below 256 these are
  9 to 13, 32 and 160.
\<close>

definition is_white_space :: "char \<Rightarrow> bool" where
  "is_white_space c \<longleftrightarrow>
     c \<in> {CHR 0x09, CHR 0x0A, CHR 0x0B, CHR 0x0C, CHR 0x0D, CHR 0x20, CHR 0xA0}"

definition trim :: "string \<Rightarrow> string" where
  "trim s = rev (dropWhile is_white_space (rev (dropWhile is_white_space s)))"

text \<open>The columns selected for the response of the update.\<close>

record usuario_select =
  sel_id :: string
  sel_nome :: string
  sel_email :: string
  sel_role :: role
  sel_createdAt :: int

definition select_usuario :: "usuario \<Rightarrow> usuario_select" where
  "select_usuario u =
     \<lparr>sel_id = usuario_id u, sel_nome = usuario_nome u, sel_email = usuario_email u,
      sel_role = usuario_role u, sel_createdAt = usuario_createdAt u\<rparr>"

text \<open>
  The handler of \<open>PUT /api/usuarios/:id\<close>. \<open>bcrypt_hash\<close> is the digest that
  \<open>bcrypt.hash(_, 10)\<close> returns in this request, \<open>agora\<close> the time of the request.
\<close>

definition usuarios_put_handler ::
  "(string \<Rightarrow> bool) \<Rightarrow> (string \<Rightarrow> string) \<Rightarrow> int \<Rightarrow> prisma \<Rightarrow> string \<Rightarrow>
     usuario_update_body \<Rightarrow> prisma \<times> usuario_select response" where
  "usuarios_put_handler is_email bcrypt_hash agora db i b =
     (if \<not> usuarioAdminUpdateSchema is_email b then (db, fail 400 DadosInvalidos)
      else case find (\<lambda>u. usuario_id u = i) (usuarios db) of
        None \<Rightarrow> (db, fail 404 UsuarioNaoEncontrado)
      | Some usuarioExistente \<Rightarrow>
          if upd_email b \<noteq> usuario_email usuarioExistente \<and>
             find (\<lambda>u. usuario_email u = upd_email b) (usuarios db) \<noteq> None
          then (db, fail 400 EmailEmUso)
          else
            let r = (case upd_role b of None \<Rightarrow> User | Some x \<Rightarrow> x);
                senha = (case upd_senha b of
                           None \<Rightarrow> None
                         | Some s \<Rightarrow> if s \<noteq> [] \<and> trim s \<noteq> [] then Some (bcrypt_hash s)
                                     else None)
            in case usuario_update db agora i (upd_nome b) (upd_email b) r senha of
                 None \<Rightarrow> (db, fail 500 ErroInterno)
               | Some (db', u) \<Rightarrow>
                   (db', ok 200 (Some UsuarioAtualizado) (Some (select_usuario u))))"

definition usuarios_put ::
  "(string \<Rightarrow> jwt_payload option) \<Rightarrow> (string \<Rightarrow> bool) \<Rightarrow> (string \<Rightarrow> string) \<Rightarrow> int \<Rightarrow>
     prisma \<Rightarrow> string option \<Rightarrow> string \<Rightarrow> usuario_update_body \<Rightarrow>
     prisma \<times> usuario_select response" where
  "usuarios_put jwt_verify is_email bcrypt_hash agora db authorization i b =
     (case authMiddleware jwt_verify db authorization of
        Inl r \<Rightarrow> (db, r)
      | Inr ru \<Rightarrow>
          (case adminMiddleware db ru of
             Some r \<Rightarrow> (db, r)
           | None \<Rightarrow> usuarios_put_handler is_email bcrypt_hash agora db i b))"

text \<open>The handler of \<open>DELETE /api/usuarios/:id\<close>, and the route with its middlewares.\<close>

definition usuarios_delete_handler ::
  "prisma \<Rightarrow> req_usuario \<Rightarrow> string \<Rightarrow> prisma \<times> unit response" where
  "usuarios_delete_handler db ru i =
     (case find (\<lambda>u. usuario_id u = i) (usuarios db) of
        None \<Rightarrow> (db, fail 404 UsuarioNaoEncontrado)
      | Some u \<Rightarrow>
          if i = ru_id ru then (db, fail 400 NaoPodeExcluirPropriaConta)
          else (usuario_delete db i, ok 200 (Some UsuarioExcluido) None))"

definition usuarios_delete ::
  "(string \<Rightarrow> jwt_payload option) \<Rightarrow> prisma \<Rightarrow> string option \<Rightarrow> string \<Rightarrow>
     prisma \<times> unit response" where
  "usuarios_delete jwt_verify db authorization i =
     (case authMiddleware jwt_verify db authorization of
        Inl r \<Rightarrow> (db, r)
      | Inr ru \<Rightarrow>
          (case adminMiddleware db ru of
             Some r \<Rightarrow> (db, r)
           | None \<Rightarrow> usuarios_delete_handler db ru i))"

section \<open>The client routes\<close>

text \<open>
  \<open>GET /api/clientes\<close>. The query gives \<open>page\<close>, \<open>limit\<close> (integers after \<open>Number\<close>,
  1 and 50 when absent) and \<open>search\<close>; an absent or empty \<open>search\<close> is falsy and filters
  nothing. Each client comes with the number of its calculations (\<open>_count\<close>). \<open>lower\<close>
  is the case folding of the store and \<open>pos\<close> its order of reading, as above.
\<close>

definition clientes_where :: "(char \<Rightarrow> char) \<Rightarrow> string option \<Rightarrow> cliente \<Rightarrow> bool" where
  "clientes_where lower search r =
     (case search of
        None \<Rightarrow> True
      | Some s \<Rightarrow>
          if s = [] then True
          else contains lower (cliente_nome r) s \<or>
               contains lower (cliente_email r) s \<or>
               contains (\<lambda>c. c) (cliente_cpf r) s)"

definition clientes_get ::
  "(char \<Rightarrow> char) \<Rightarrow> (cliente \<Rightarrow> int) \<Rightarrow> prisma \<Rightarrow> int option \<Rightarrow> int option \<Rightarrow>
     string option \<Rightarrow> (cliente \<times> nat) list response"
  where
  "clientes_get lower pos db pg lm search =
     (let p = (case pg of None \<Rightarrow> 1 | Some x \<Rightarrow> x);
          l = (case lm of None \<Rightarrow> 50 | Some x \<Rightarrow> x)
      in case findMany pos (clientes_where lower search) cliente_createdAt ((p - 1) * l) l
                (clientes db) of
           None \<Rightarrow> fail 500 ErroInterno
         | Some rows \<Rightarrow>
             \<lparr>status = 200, success = True, message = None,
              data = Some (map (\<lambda>r. (r, count_rows (\<lambda>k. clienteId k = cliente_id r) (calculos db)))
                               rows),
              pagination = Some \<lparr>page = p, limit = l,
                                  total = count_rows (clientes_where lower search)
                                            (clientes db)\<rparr>\<rparr>)"

text \<open>\<open>DELETE /api/clientes/:id\<close>.\<close>

definition clientes_delete :: "prisma \<Rightarrow> string \<Rightarrow> prisma \<times> unit response" where
  "clientes_delete db i =
     (case find (\<lambda>r. cliente_id r = i) (clientes db) of
        None \<Rightarrow> (db, fail 404 ClienteNaoEncontrado)
      | Some r \<Rightarrow>
          if 0 < count_rows (\<lambda>k. clienteId k = cliente_id r) (calculos db)
          then (db, fail 400 ClientePossuiCalculos)
          else (cliente_delete db i, ok 200 (Some ClienteDeletado) None))"

section \<open>The calculation routes\<close>

text \<open>
  The body of \<open>POST /api/calculos\<close> as \<open>criarCalculoSchema\<close> types it; \<open>taxaPoupanca\<close>
  may be absent and then is \<open>0.005\<close>.
\<close>

record criar_calculo_body =
  body_valorLocacao :: number
  body_valorTaxas :: number
  body_cliente :: cliente_dados
  body_taxaPoupanca :: "number option"

definition criarCalculoSchema :: "(string \<Rightarrow> bool) \<Rightarrow> criar_calculo_body \<Rightarrow> bool" where
  "criarCalculoSchema is_email b \<longleftrightarrow>
     z_positive (body_valorLocacao b) \<and> z_positive (body_valorTaxas b) \<and>
     2 \<le> length (nome (body_cliente b)) \<and> 10 \<le> length (telefone (body_cliente b)) \<and>
     11 \<le> length (cpf (body_cliente b)) \<and> is_email (email (body_cliente b)) \<and>
     (case body_taxaPoupanca b of None \<Rightarrow> True | Some t \<Rightarrow> z_number t)"

text \<open>
  The first step of the handler: look the client up by CPF, create it when there is none,
  update it otherwise.
\<close>

definition upsert_cliente ::
  "int \<Rightarrow> string \<Rightarrow> prisma \<Rightarrow> cliente_dados \<Rightarrow> (prisma \<times> cliente) option" where
  "upsert_cliente agora novo_id db dados =
     (case find (\<lambda>r. cliente_cpf r = cpf dados) (clientes db) of
        None \<Rightarrow> cliente_create db agora novo_id dados
      | Some _ \<Rightarrow> cliente_update_by_cpf db agora (cpf dados) dados)"

text \<open>
  The handler of \<open>POST /api/calculos\<close>. \<open>id_cliente\<close> and \<open>id_calculo\<close> are the
  identifiers that the database client generates for a new client and for the calculation.
  The two writes are not one transaction: when the second throws, the first stays.
  The response carries the calculation with its client (\<open>include: {cliente: true}\<close>).
\<close>

definition calculos_post_handler ::
  "(string \<Rightarrow> bool) \<Rightarrow> int \<Rightarrow> string \<Rightarrow> string \<Rightarrow> prisma \<Rightarrow> req_usuario \<Rightarrow>
     criar_calculo_body \<Rightarrow> prisma \<times> (calculo \<times> cliente option) response" where
  "calculos_post_handler is_email agora id_cliente id_calculo db ru b =
     (if \<not> criarCalculoSchema is_email b then (db, fail 400 DadosInvalidos)
      else
        let taxa = (case body_taxaPoupanca b of None \<Rightarrow> literal (1 / 200) | Some t \<Rightarrow> t)
        in case upsert_cliente agora id_cliente db (body_cliente b) of
             None \<Rightarrow> (db, fail 500 ErroInterno)
           | Some (db1, cli) \<Rightarrow>
               let vInicial = num_add (body_valorLocacao b) (body_valorTaxas b);
                   vOriginal = num_mul vInicial (Finite 4);
                   vComDesconto = num_mul vOriginal (literal (3 / 4));
                   vCorrigido = num_mul vComDesconto (num_add (Finite 1) taxa)
               in case calculo_create db1
                         \<lparr>calculo_id = id_calculo,
                          valorLocacao = body_valorLocacao b,
                          valorTaxas = body_valorTaxas b,
                          valorInicial = vInicial,
                          valorOriginal = vOriginal,
                          valorComDesconto = vComDesconto,
                          valorCorrigido = vCorrigido,
                          taxaPoupanca = taxa,
                          clienteId = cliente_id cli,
                          usuarioId = Some (ru_id ru),
                          calculo_createdAt = agora,
                          calculo_updatedAt = agora\<rparr> of
                    None \<Rightarrow> (db1, fail 500 ErroInterno)
                  | Some (db2, k) \<Rightarrow>
                      (db2, ok 201 (Some CalculoCriado)
                              (Some (k, find (\<lambda>r. cliente_id r = clienteId k) (clientes db2)))))"

definition calculos_post ::
  "(string \<Rightarrow> jwt_payload option) \<Rightarrow> (string \<Rightarrow> bool) \<Rightarrow> int \<Rightarrow> string \<Rightarrow> string \<Rightarrow>
     prisma \<Rightarrow> string option \<Rightarrow> criar_calculo_body \<Rightarrow>
     prisma \<times> (calculo \<times> cliente option) response" where
  "calculos_post jwt_verify is_email agora id_cliente id_calculo db authorization b =
     (case authMiddleware jwt_verify db authorization of
        Inl r \<Rightarrow> (db, r)
      | Inr ru \<Rightarrow> calculos_post_handler is_email agora id_cliente id_calculo db ru b)"

text \<open>
  \<open>GET /api/calculos\<close>. \<open>where\<close> starts as \<open>{clienteId}\<close> when the query has a
  non-empty \<open>clienteId\<close> and as \<open>{}\<close> otherwise; for a user who is not an admin the
  handler then sets \<open>where.usuarioId\<close>. \<open>pos\<close> is the store's order of reading, as
  for \<open>findMany\<close>.
\<close>

definition calculos_where :: "req_usuario \<Rightarrow> string option \<Rightarrow> calculo \<Rightarrow> bool" where
  "calculos_where ru cid k \<longleftrightarrow>
     (case cid of None \<Rightarrow> True | Some c \<Rightarrow> if c = [] then True else clienteId k = c) \<and>
     (if ru_role ru \<noteq> Admin then usuarioId k = Some (ru_id ru) else True)"

definition calculos_get_handler ::
  "(calculo \<Rightarrow> int) \<Rightarrow> prisma \<Rightarrow> req_usuario \<Rightarrow> int option \<Rightarrow> int option \<Rightarrow> string option \<Rightarrow>
     (calculo \<times> cliente option) list response" where
  "calculos_get_handler pos db ru pg lm cid =
     (let p = (case pg of None \<Rightarrow> 1 | Some x \<Rightarrow> x);
          l = (case lm of None \<Rightarrow> 50 | Some x \<Rightarrow> x)
      in case findMany pos (calculos_where ru cid) calculo_createdAt ((p - 1) * l) l
                (calculos db) of
           None \<Rightarrow> fail 500 ErroInterno
         | Some rows \<Rightarrow>
             \<lparr>status = 200, success = True, message = None,
              data = Some (map (\<lambda>k. (k, find (\<lambda>r. cliente_id r = clienteId k) (clientes db)))
                               rows),
              pagination = Some \<lparr>page = p, limit = l,
                                  total = count_rows (calculos_where ru cid) (calculos db)\<rparr>\<rparr>)"

definition calculos_get ::
  "(calculo \<Rightarrow> int) \<Rightarrow> (string \<Rightarrow> jwt_payload option) \<Rightarrow> prisma \<Rightarrow> string option \<Rightarrow>
     int option \<Rightarrow> int option \<Rightarrow> string option \<Rightarrow> (calculo \<times> cliente option) list response"
  where
  "calculos_get pos jwt_verify db authorization pg lm cid =
     (case authMiddleware jwt_verify db authorization of
        Inl r \<Rightarrow> r
      | Inr ru \<Rightarrow> calculos_get_handler pos db ru pg lm cid)"

text \<open>\<open>GET /api/calculos/:id\<close> and \<open>DELETE /api/calculos/:id\<close>.\<close>

definition calculos_get_id_handler ::
  "prisma \<Rightarrow> req_usuario \<Rightarrow> string \<Rightarrow> (calculo \<times> cliente option) response" where
  "calculos_get_id_handler db ru i =
     (case find (\<lambda>k. calculo_id k = i) (calculos db) of
        None \<Rightarrow> fail 404 CalculoNaoEncontrado
      | Some k \<Rightarrow>
          ok 200 None (Some (k, find (\<lambda>r. cliente_id r = clienteId k) (clientes db))))"

definition calculos_get_id ::
  "(string \<Rightarrow> jwt_payload option) \<Rightarrow> prisma \<Rightarrow> string option \<Rightarrow> string \<Rightarrow>
     (calculo \<times> cliente option) response" where
  "calculos_get_id jwt_verify db authorization i =
     (case authMiddleware jwt_verify db authorization of
        Inl r \<Rightarrow> r
      | Inr ru \<Rightarrow> calculos_get_id_handler db ru i)"

definition calculos_delete_handler ::
  "prisma \<Rightarrow> req_usuario \<Rightarrow> string \<Rightarrow> prisma \<times> unit response" where
  "calculos_delete_handler db ru i =
     (case find (\<lambda>k. calculo_id k = i) (calculos db) of
        None \<Rightarrow> (db, fail 404 CalculoNaoEncontrado)
      | Some k \<Rightarrow> (calculo_delete db i, ok 200 (Some CalculoDeletado) None))"

definition calculos_delete ::
  "(string \<Rightarrow> jwt_payload option) \<Rightarrow> prisma \<Rightarrow> string option \<Rightarrow> string \<Rightarrow>
     prisma \<times> unit response" where
  "calculos_delete jwt_verify db authorization i =
     (case authMiddleware jwt_verify db authorization of
        Inl r \<Rightarrow> (db, r)
      | Inr ru \<Rightarrow> calculos_delete_handler db ru i)"

section \<open>Example states\<close>

text \<open>
  A small database and the stand-ins for the outside world that the instances below are
  evaluated on: three users (one admin), two clients, and two calculations of the first
  client that were created at the same moment by two different users. \<open>ex_jwt_verify\<close>
  accepts four tokens; the last one names a user who is no longer stored. \<open>ex_lower\<close>
  and \<open>ex_pos\<close> are one possible store.
\<close>

definition ex_lower :: "char \<Rightarrow> char" where
  \<comment> \<open>a store that folds the letters \<open>A\<close> to \<open>Z\<close> and the accented capitals of Latin-1\<close>
  "ex_lower c =
     (case map_of
             (zip (''ABCDEFGHIJKLMNOPQRSTUVWXYZ'' @
                   [CHR 0xC0, CHR 0xC1, CHR 0xC2, CHR 0xC3, CHR 0xC4, CHR 0xC5, CHR 0xC6,
                    CHR 0xC7, CHR 0xC8, CHR 0xC9, CHR 0xCA, CHR 0xCB, CHR 0xCC, CHR 0xCD,
                    CHR 0xCE, CHR 0xCF, CHR 0xD0, CHR 0xD1, CHR 0xD2, CHR 0xD3, CHR 0xD4,
                    CHR 0xD5, CHR 0xD6, CHR 0xD8, CHR 0xD9, CHR 0xDA, CHR 0xDB, CHR 0xDC,
                    CHR 0xDD, CHR 0xDE])
                  (''abcdefghijklmnopqrstuvwxyz'' @
                   [CHR 0xE0, CHR 0xE1, CHR 0xE2, CHR 0xE3, CHR 0xE4, CHR 0xE5, CHR 0xE6,
                    CHR 0xE7, CHR 0xE8, CHR 0xE9, CHR 0xEA, CHR 0xEB, CHR 0xEC, CHR 0xED,
                    CHR 0xEE, CHR 0xEF, CHR 0xF0, CHR 0xF1, CHR 0xF2, CHR 0xF3, CHR 0xF4,
                    CHR 0xF5, CHR 0xF6, CHR 0xF8, CHR 0xF9, CHR 0xFA, CHR 0xFB, CHR 0xFC,
                    CHR 0xFD, CHR 0xFE])) c of
        None \<Rightarrow> c
      | Some d \<Rightarrow> d)"

definition ex_pos :: "'r \<Rightarrow> int" where
  \<comment> \<open>a store that reads the rows as the table lists them\<close>
  "ex_pos r = 0"

definition ex_is_email :: "string \<Rightarrow> bool" where
  "ex_is_email s \<longleftrightarrow> CHR ''@'' \<in> set s"

definition ex_bcrypt_hash :: "string \<Rightarrow> string" where
  "ex_bcrypt_hash s = ''$2b$10$'' @ s"

definition ex_jwt_verify :: "string \<Rightarrow> jwt_payload option" where
  "ex_jwt_verify t =
     (if t = ''t0'' then Some \<lparr>userId = ''u0'', payload_email = ''root@x.com''\<rparr>
      else if t = ''t1'' then Some \<lparr>userId = ''u1'', payload_email = ''ana@x.com''\<rparr>
      else if t = ''t2'' then Some \<lparr>userId = ''u2'', payload_email = ''bia@x.com''\<rparr>
      else if t = ''t3'' then Some \<lparr>userId = ''u3'', payload_email = ''old@x.com''\<rparr>
      else None)"

definition ex_root :: usuario where
  "ex_root = \<lparr>usuario_id = ''u0'', usuario_nome = ''Root'', usuario_email = ''root@x.com'',
              usuario_senha = ''h0'', usuario_role = Admin, usuario_createdAt = 1,
              usuario_updatedAt = 1\<rparr>"

definition ex_ana :: usuario where
  "ex_ana = \<lparr>usuario_id = ''u1'', usuario_nome = ''Ana'', usuario_email = ''ana@x.com'',
             usuario_senha = ''h1'', usuario_role = User, usuario_createdAt = 2,
             usuario_updatedAt = 2\<rparr>"

definition ex_bia :: usuario where
  "ex_bia = \<lparr>usuario_id = ''u2'', usuario_nome = ''Bia'', usuario_email = ''bia@x.com'',
             usuario_senha = ''h2'', usuario_role = User, usuario_createdAt = 3,
             usuario_updatedAt = 3\<rparr>"

definition ex_joao :: cliente where
  "ex_joao = \<lparr>cliente_id = ''c1'', cliente_nome = ''Joao Silva'',
              cliente_telefone = ''11999990000'', cliente_cpf = ''12345678901'',
              cliente_email = ''joao@x.com'', cliente_createdAt = 5, cliente_updatedAt = 5\<rparr>"

definition ex_maria :: cliente where
  "ex_maria = \<lparr>cliente_id = ''c2'', cliente_nome = ''Maria Souza'',
               cliente_telefone = ''21988887777'', cliente_cpf = ''98765432100'',
               cliente_email = ''MARIA@y.org'', cliente_createdAt = 6, cliente_updatedAt = 6\<rparr>"

definition ex_calculo :: "string \<Rightarrow> string \<Rightarrow> calculo" where
  "ex_calculo i u =
     \<lparr>calculo_id = i, valorLocacao = Finite 1000, valorTaxas = Finite 200,
      valorInicial = Finite 1200, valorOriginal = Finite 4800, valorComDesconto = Finite 3600,
      valorCorrigido = Finite (3618 - 1 / 2 ^ 41),
      taxaPoupanca = Finite (5764607523034235 / 2 ^ 60),
      clienteId = ''c1'', usuarioId = Some u, calculo_createdAt = 7, calculo_updatedAt = 7\<rparr>"

definition ex_db :: prisma where
  "ex_db = \<lparr>usuarios = [ex_root, ex_ana, ex_bia], clientes = [ex_joao, ex_maria],
            calculos = [ex_calculo ''kb'' ''u1'', ex_calculo ''ka'' ''u2'']\<rparr>"

definition ex_body :: criar_calculo_body where
  "ex_body =
     \<lparr>body_valorLocacao = Finite 1000, body_valorTaxas = Finite 200,
      body_cliente = \<lparr>nome = ''Joao Silva'', telefone = ''11999990000'',
                      cpf = ''12345678901'', email = ''joao@x.com''\<rparr>,
      body_taxaPoupanca = Some (literal (1 / 200))\<rparr>"

section \<open>Auxiliary facts\<close>

lemma floor_rat_numeral: "\<lfloor>(numeral a / numeral b :: rat)\<rfloor> = numeral a div numeral b"
  using floor_divide_of_int_eq [of "numeral a" "numeral b", where ?'a = rat] by simp

lemma ceiling_rat_numeral:
  "\<lceil>(numeral a / numeral b :: rat)\<rceil> = - ((- numeral a) div numeral b)"
  using floor_divide_of_int_eq [of "- numeral a" "numeral b", where ?'a = rat]
  by (simp add: ceiling_def)

lemmas num_eval =
  literal_def round_to_double_def ilog2_def pow2_def round_half_even_def Let_def
  compute_bitlen floor_rat_numeral ceiling_rat_numeral

text \<open>
  The roundings of the example \<open>valorLocacao = 1000\<close>, \<open>valorTaxas = 200\<close>,
  \<open>taxaPoupanca = 0.005\<close>, one operation at a time.
\<close>

lemma literal_0_005: "literal (1 / 200) = Finite (5764607523034235 / 2 ^ 60)"
  by (simp add: num_eval)

lemma literal_0_75: "literal (3 / 4) = Finite (3 / 4)"
  by (simp add: num_eval)

lemma example_valorInicial: "num_add (Finite 1000) (Finite 200) = Finite 1200"
  by (simp add: num_eval)

lemma example_valorOriginal: "num_mul (Finite 1200) (Finite 4) = Finite 4800"
  by (simp add: num_eval)

lemma example_valorComDesconto: "num_mul (Finite 4800) (Finite (3 / 4)) = Finite 3600"
  by (simp add: num_eval)

lemma example_fator: "num_add (Finite 1) (Finite (5764607523034235 / 2 ^ 60)) =
    Finite (1131529406376837 / 2 ^ 50)"
  by (simp add: num_eval)

lemma example_valorCorrigido:
  "num_mul (Finite 3600) (Finite (1131529406376837 / 2 ^ 50)) = Finite (3618 - 1 / 2 ^ 41)"
  by (simp add: num_eval)

lemma find_None_key: "find (\<lambda>r. f r = v) xs = None \<longleftrightarrow> v \<notin> set (map f xs)"
  by (auto simp: find_None_iff)

lemma find_Some_key: "find (\<lambda>r. f r = v) xs = Some r \<Longrightarrow> r \<in> set xs \<and> f r = v"
  by (auto simp: find_Some_iff)

lemma upsert_cliente_total:
  assumes "novo_id \<notin> set (map cliente_id (clientes db))"
  shows "\<exists>db1 cli. upsert_cliente agora novo_id db dados = Some (db1, cli) \<and>
           cli \<in> set (clientes db1) \<and> usuarios db1 = usuarios db \<and> calculos db1 = calculos db"
proof (cases "find (\<lambda>r. cliente_cpf r = cpf dados) (clientes db)")
  case None
  then have "cpf dados \<notin> set (map cliente_cpf (clientes db))"
    using find_None_key [of cliente_cpf "cpf dados" "clientes db"] by blast
  with None assms show ?thesis
    by (simp add: upsert_cliente_def cliente_create_def Let_def)
next
  case (Some r)
  then have "r \<in> set (clientes db)" "cliente_cpf r = cpf dados"
    using find_Some_key [of cliente_cpf "cpf dados" "clientes db" r] by simp_all
  then have "cliente_set agora dados r \<in>
      set (map (\<lambda>x. if cliente_cpf x = cpf dados then cliente_set agora dados x else x)
             (clientes db))"
    by force
  with Some show ?thesis
    by (simp add: upsert_cliente_def cliente_update_by_cpf_def)
qed

lemma find_key_self:
  "find (\<lambda>r. f r = v) xs = Some r \<Longrightarrow> find (\<lambda>x. f x = f r) xs = Some r"
  using find_Some_key [of f v xs r] by simp

lemma authMiddleware_Inr:
  assumes "authMiddleware jwt_verify db authorization = Inr ru"
  shows "\<exists>u. find (\<lambda>u. usuario_id u = ru_id ru) (usuarios db) = Some u \<and>
             ru_nome ru = usuario_nome u \<and> ru_email ru = usuario_email u \<and>
             ru_role ru = usuario_role u"
  using assms
  by (auto simp: authMiddleware_def Let_def split: option.splits if_splits dest: find_key_self)

lemmas ex_rows =
  ex_db_def ex_root_def ex_ana_def ex_bia_def ex_joao_def ex_maria_def ex_calculo_def

lemma ex_auth_root:
  "authMiddleware ex_jwt_verify ex_db (Some ''Bearer t0'') =
     Inr \<lparr>ru_id = ''u0'', ru_nome = ''Root'', ru_email = ''root@x.com'', ru_role = Admin\<rparr>"
  by (simp add: authMiddleware_def ex_jwt_verify_def ex_rows)

lemma ex_auth_ana:
  "authMiddleware ex_jwt_verify ex_db (Some ''Bearer t1'') =
     Inr \<lparr>ru_id = ''u1'', ru_nome = ''Ana'', ru_email = ''ana@x.com'', ru_role = User\<rparr>"
  by (simp add: authMiddleware_def ex_jwt_verify_def ex_rows)

section \<open>Creating a calculation\<close>

lemma calculos_post_handler_values:
  assumes valid: "criarCalculoSchema is_email b"
    and id1: "id_cliente \<notin> set (map cliente_id (clientes db))"
    and id2: "id_calculo \<notin> set (map calculo_id (calculos db))"
    and usr: "ru_id ru \<in> set (map usuario_id (usuarios db))"
  shows "\<exists>db' k c. calculos_post_handler is_email agora id_cliente id_calculo db ru b =
             (db', ok 201 (Some CalculoCriado) (Some (k, c))) \<and>
           k \<in> set (calculos db') \<and>
           valorLocacao k = body_valorLocacao b \<and> valorTaxas k = body_valorTaxas b \<and>
           taxaPoupanca k =
             (case body_taxaPoupanca b of None \<Rightarrow> literal (1 / 200) | Some t \<Rightarrow> t) \<and>
           valorInicial k = num_add (valorLocacao k) (valorTaxas k) \<and>
           valorOriginal k = num_mul (valorInicial k) (Finite 4) \<and>
           valorComDesconto k = num_mul (valorOriginal k) (literal (3 / 4)) \<and>
           valorCorrigido k = num_mul (valorComDesconto k) (num_add (Finite 1) (taxaPoupanca k))"
proof -
  obtain db1 cli where up: "upsert_cliente agora id_cliente db (body_cliente b) = Some (db1, cli)"
    and cli: "cli \<in> set (clientes db1)" and us: "usuarios db1 = usuarios db"
    and ks: "calculos db1 = calculos db"
    using upsert_cliente_total [OF id1] by blast
  define taxa where
    "taxa = (case body_taxaPoupanca b of None \<Rightarrow> literal (1 / 200) | Some t \<Rightarrow> t)"
  define k where "k =
    \<lparr>calculo_id = id_calculo, valorLocacao = body_valorLocacao b,
     valorTaxas = body_valorTaxas b,
     valorInicial = num_add (body_valorLocacao b) (body_valorTaxas b),
     valorOriginal = num_mul (num_add (body_valorLocacao b) (body_valorTaxas b)) (Finite 4),
     valorComDesconto =
       num_mul (num_mul (num_add (body_valorLocacao b) (body_valorTaxas b)) (Finite 4))
         (literal (3 / 4)),
     valorCorrigido =
       num_mul (num_mul (num_mul (num_add (body_valorLocacao b) (body_valorTaxas b)) (Finite 4))
         (literal (3 / 4))) (num_add (Finite 1) taxa),
     taxaPoupanca = taxa, clienteId = cliente_id cli, usuarioId = Some (ru_id ru),
     calculo_createdAt = agora, calculo_updatedAt = agora\<rparr>"
  from cli have "cliente_id cli \<in> set (map cliente_id (clientes db1))" by simp
  with id2 usr us ks
  have "calculo_create db1 k = Some (db1\<lparr>calculos := calculos db1 @ [k]\<rparr>, k)"
    by (simp add: calculo_create_def k_def)
  with up valid have "calculos_post_handler is_email agora id_cliente id_calculo db ru b =
      (db1\<lparr>calculos := calculos db1 @ [k]\<rparr>,
       ok 201 (Some CalculoCriado)
         (Some (k, find (\<lambda>r. cliente_id r = clienteId k) (clientes db1))))"
    by (simp add: calculos_post_handler_def Let_def k_def taxa_def)
  moreover have "k \<in> set (calculos (db1\<lparr>calculos := calculos db1 @ [k]\<rparr>))" by simp
  moreover have "valorLocacao k = body_valorLocacao b" "valorTaxas k = body_valorTaxas b"
    "taxaPoupanca k = taxa"
    "valorInicial k = num_add (valorLocacao k) (valorTaxas k)"
    "valorOriginal k = num_mul (valorInicial k) (Finite 4)"
    "valorComDesconto k = num_mul (valorOriginal k) (literal (3 / 4))"
    "valorCorrigido k = num_mul (valorComDesconto k) (num_add (Finite 1) (taxaPoupanca k))"
    by (simp_all add: k_def)
  ultimately show ?thesis unfolding taxa_def by blast
qed

lemma ex_post:
  "calculos_post ex_jwt_verify ex_is_email 10 ''c9'' ''k9'' ex_db (Some ''Bearer t1'') ex_body =
     (ex_db\<lparr>clientes := [ex_joao\<lparr>cliente_updatedAt := 10\<rparr>, ex_maria],
            calculos := [ex_calculo ''kb'' ''u1'', ex_calculo ''ka'' ''u2'',
                         \<lparr>calculo_id = ''k9'', valorLocacao = Finite 1000,
                          valorTaxas = Finite 200, valorInicial = Finite 1200,
                          valorOriginal = Finite 4800, valorComDesconto = Finite 3600,
                          valorCorrigido = Finite (3618 - 1 / 2 ^ 41),
                          taxaPoupanca = literal (1 / 200), clienteId = ''c1'',
                          usuarioId = Some ''u1'', calculo_createdAt = 10,
                          calculo_updatedAt = 10\<rparr>]\<rparr>,
      ok 201 (Some CalculoCriado)
        (Some (\<lparr>calculo_id = ''k9'', valorLocacao = Finite 1000, valorTaxas = Finite 200,
                valorInicial = Finite 1200, valorOriginal = Finite 4800,
                valorComDesconto = Finite 3600, valorCorrigido = Finite (3618 - 1 / 2 ^ 41),
                taxaPoupanca = literal (1 / 200), clienteId = ''c1'', usuarioId = Some ''u1'',
                calculo_createdAt = 10, calculo_updatedAt = 10\<rparr>,
               Some (ex_joao\<lparr>cliente_updatedAt := 10\<rparr>))))"
  apply (simp add: calculos_post_def ex_auth_ana)
  apply (simp add: calculos_post_handler_def criarCalculoSchema_def
      ex_body_def ex_is_email_def upsert_cliente_def cliente_update_by_cpf_def cliente_set_def
      calculo_create_def ex_rows num_eval)
  done

text \<open>
  C1, as stated, at its own example: the created calculation of
  \<open>valorLocacao = 1000\<close>, \<open>valorTaxas = 200\<close>, \<open>taxaPoupanca = 0.005\<close> has
  \<open>valorInicial = 1200\<close>, \<open>valorOriginal = 4800\<close> and \<open>valorComDesconto = 3600\<close>, but its
  \<open>valorCorrigido\<close> is \<open>3618 - 2^-41\<close> (printed \<open>3617.9999999999995\<close>) and not \<open>3618.0\<close>:
  \<open>1 + 0.005\<close> rounds to \<open>1131529406376837 / 2^50\<close>, below \<open>1.005\<close>, and the product with
  \<open>3600\<close> rounds down to the double next below \<open>3618\<close>.
\<close>

theorem calculos_post_example_not_3618:
  "snd (calculos_post ex_jwt_verify ex_is_email 10 ''c9'' ''k9'' ex_db (Some ''Bearer t1'')
          ex_body) =
     ok 201 (Some CalculoCriado)
       (Some (\<lparr>calculo_id = ''k9'', valorLocacao = Finite 1000, valorTaxas = Finite 200,
               valorInicial = Finite 1200, valorOriginal = Finite 4800,
               valorComDesconto = Finite 3600, valorCorrigido = Finite (3618 - 1 / 2 ^ 41),
               taxaPoupanca = literal (1 / 200), clienteId = ''c1'', usuarioId = Some ''u1'',
               calculo_createdAt = 10, calculo_updatedAt = 10\<rparr>,
              Some (ex_joao\<lparr>cliente_updatedAt := 10\<rparr>))) \<and>
   Finite (3618 - 1 / 2 ^ 41) \<noteq> Finite 3618"
  by (simp add: ex_post)

text \<open>
  C1, amended. For every authenticated user and every body that passes
  \<open>criarCalculoSchema\<close> (so \<open>valorLocacao\<close> and \<open>valorTaxas\<close> are strictly positive), when
  the identifiers generated for the request are new, \<open>POST /api/calculos\<close> answers 201 and
  stores a calculation whose \<open>valorInicial\<close> is \<open>valorLocacao + valorTaxas\<close>, whose
  \<open>valorOriginal\<close> is \<open>valorInicial * 4\<close>, whose \<open>valorComDesconto\<close> is
  \<open>valorOriginal * 0.75\<close> and whose \<open>valorCorrigido\<close> is
  \<open>valorComDesconto * (1 + taxaPoupanca)\<close>, each operation being the double-precision one,
  applied in that order. At \<open>valorLocacao = 1000\<close>, \<open>valorTaxas = 200\<close>,
  \<open>taxaPoupanca = 0.005\<close> the four values are \<open>1200\<close>, \<open>4800\<close>, \<open>3600\<close> and
  \<open>3618 - 2^-41\<close>.
\<close>

theorem calculos_post_values:
  "(\<forall>jwt_verify is_email agora id_cliente id_calculo db authorization ru b.
      authMiddleware jwt_verify db authorization =
        (Inr ru :: (calculo \<times> cliente option) response + req_usuario) \<longrightarrow>
      criarCalculoSchema is_email b \<longrightarrow>
      id_cliente \<notin> set (map cliente_id (clientes db)) \<longrightarrow>
      id_calculo \<notin> set (map calculo_id (calculos db)) \<longrightarrow>
      (\<exists>db' k c.
         calculos_post jwt_verify is_email agora id_cliente id_calculo db authorization b =
           (db', ok 201 (Some CalculoCriado) (Some (k, c))) \<and>
         k \<in> set (calculos db') \<and>
         valorLocacao k = body_valorLocacao b \<and> valorTaxas k = body_valorTaxas b \<and>
         taxaPoupanca k =
           (case body_taxaPoupanca b of None \<Rightarrow> literal (1 / 200) | Some t \<Rightarrow> t) \<and>
         valorInicial k = num_add (valorLocacao k) (valorTaxas k) \<and>
         valorOriginal k = num_mul (valorInicial k) (Finite 4) \<and>
         valorComDesconto k = num_mul (valorOriginal k) (literal (3 / 4)) \<and>
         valorCorrigido k =
           num_mul (valorComDesconto k) (num_add (Finite 1) (taxaPoupanca k)))) \<and>
   (\<exists>db' c.
      calculos_post ex_jwt_verify ex_is_email 10 ''c9'' ''k9'' ex_db (Some ''Bearer t1'')
        ex_body =
        (db', ok 201 (Some CalculoCriado)
           (Some (\<lparr>calculo_id = ''k9'', valorLocacao = Finite 1000, valorTaxas = Finite 200,
                   valorInicial = Finite 1200, valorOriginal = Finite 4800,
                   valorComDesconto = Finite 3600,
                   valorCorrigido = Finite (3618 - 1 / 2 ^ 41),
                   taxaPoupanca = literal (1 / 200), clienteId = ''c1'',
                   usuarioId = Some ''u1'', calculo_createdAt = 10,
                   calculo_updatedAt = 10\<rparr>, c))))"
proof (intro conjI allI impI)
  fix jwt_verify is_email agora id_cliente id_calculo db authorization ru b
  assume auth: "authMiddleware jwt_verify db authorization =
      (Inr ru :: (calculo \<times> cliente option) response + req_usuario)"
    and valid: "criarCalculoSchema is_email b"
    and id1: "id_cliente \<notin> set (map cliente_id (clientes db))"
    and id2: "id_calculo \<notin> set (map calculo_id (calculos db))"
  from authMiddleware_Inr [OF auth]
  have usr: "ru_id ru \<in> set (map usuario_id (usuarios db))"
    by (force dest!: find_Some_key)
  have "calculos_post jwt_verify is_email agora id_cliente id_calculo db authorization b =
      calculos_post_handler is_email agora id_cliente id_calculo db ru b"
    by (simp add: calculos_post_def auth)
  with calculos_post_handler_values [OF valid id1 id2 usr, of agora]
  show "\<exists>db' k c.
         calculos_post jwt_verify is_email agora id_cliente id_calculo db authorization b =
           (db', ok 201 (Some CalculoCriado) (Some (k, c))) \<and>
         k \<in> set (calculos db') \<and>
         valorLocacao k = body_valorLocacao b \<and> valorTaxas k = body_valorTaxas b \<and>
         taxaPoupanca k =
           (case body_taxaPoupanca b of None \<Rightarrow> literal (1 / 200) | Some t \<Rightarrow> t) \<and>
         valorInicial k = num_add (valorLocacao k) (valorTaxas k) \<and>
         valorOriginal k = num_mul (valorInicial k) (Finite 4) \<and>
         valorComDesconto k = num_mul (valorOriginal k) (literal (3 / 4)) \<and>
         valorCorrigido k =
           num_mul (valorComDesconto k) (num_add (Finite 1) (taxaPoupanca k))"
    by simp
next
  show "\<exists>db' c.
      calculos_post ex_jwt_verify ex_is_email 10 ''c9'' ''k9'' ex_db (Some ''Bearer t1'')
        ex_body =
        (db', ok 201 (Some CalculoCriado)
           (Some (\<lparr>calculo_id = ''k9'', valorLocacao = Finite 1000, valorTaxas = Finite 200,
                   valorInicial = Finite 1200, valorOriginal = Finite 4800,
                   valorComDesconto = Finite 3600,
                   valorCorrigido = Finite (3618 - 1 / 2 ^ 41),
                   taxaPoupanca = literal (1 / 200), clienteId = ''c1'',
                   usuarioId = Some ''u1'', calculo_createdAt = 10,
                   calculo_updatedAt = 10\<rparr>, c)))"
    unfolding ex_post by blast
qed

theorem calculos_post_values_witness:
  "authMiddleware ex_jwt_verify ex_db (Some ''Bearer t1'') =
     (Inr \<lparr>ru_id = ''u1'', ru_nome = ''Ana'', ru_email = ''ana@x.com'', ru_role = User\<rparr>
        :: (calculo \<times> cliente option) response + req_usuario) \<and>
   criarCalculoSchema ex_is_email (ex_body\<lparr>body_taxaPoupanca := None\<rparr>) \<and>
   ''c9'' \<notin> set (map cliente_id (clientes ex_db)) \<and>
   ''k9'' \<notin> set (map calculo_id (calculos ex_db)) \<and>
   (\<exists>db' k c.
      calculos_post ex_jwt_verify ex_is_email 10 ''c9'' ''k9'' ex_db (Some ''Bearer t1'')
        (ex_body\<lparr>body_taxaPoupanca := None\<rparr>) =
        (db', ok 201 (Some CalculoCriado) (Some (k, c))) \<and>
      k \<in> set (calculos db') \<and>
      valorLocacao k = Finite 1000 \<and> valorTaxas k = Finite 200 \<and>
      taxaPoupanca k = literal (1 / 200) \<and>
      valorInicial k = num_add (valorLocacao k) (valorTaxas k) \<and>
      valorOriginal k = num_mul (valorInicial k) (Finite 4) \<and>
      valorComDesconto k = num_mul (valorOriginal k) (literal (3 / 4)) \<and>
      valorCorrigido k = num_mul (valorComDesconto k) (num_add (Finite 1) (taxaPoupanca k)))"
proof -
  have h1: "authMiddleware ex_jwt_verify ex_db (Some ''Bearer t1'') =
     (Inr \<lparr>ru_id = ''u1'', ru_nome = ''Ana'', ru_email = ''ana@x.com'', ru_role = User\<rparr>
        :: (calculo \<times> cliente option) response + req_usuario)"
    by (rule ex_auth_ana)
  have h2: "criarCalculoSchema ex_is_email (ex_body\<lparr>body_taxaPoupanca := None\<rparr>)"
    by (simp add: criarCalculoSchema_def ex_body_def ex_is_email_def)
  have h3: "''c9'' \<notin> set (map cliente_id (clientes ex_db))"
    by (simp add: ex_rows)
  have h4: "''k9'' \<notin> set (map calculo_id (calculos ex_db))"
    by (simp add: ex_rows)
  from calculos_post_values [THEN conjunct1, rule_format, OF h1 h2 h3 h4, of 10] h1 h2 h3 h4
  show ?thesis by (simp add: ex_body_def)
qed

section \<open>Authentication\<close>

lemma replace_first_prefix: "p \<noteq> [] \<Longrightarrow> replace_first p [] (p @ t) = t"
  by (cases p) simp_all

text \<open>
  C3. \<open>authMiddleware\<close> answers 401 "Token de acesso requerido" when the request has no
  \<open>Authorization\<close> header (or an empty one); 401 "Token invalido" when the header is
  there and \<open>jwt.verify\<close> throws on the token, which is the header without its first
  \<open>Bearer\<close> prefix; and the same 401 "Token invalido" when the token verifies and no
  stored user has its \<open>userId\<close>. The last two responses are equal.
\<close>

theorem authMiddleware_unauthorized:
  "authMiddleware jwt_verify db None =
     (Inl (fail 401 TokenDeAcessoRequerido) :: 'a response + req_usuario) \<and>
   authMiddleware jwt_verify db (Some []) =
     (Inl (fail 401 TokenDeAcessoRequerido) :: 'a response + req_usuario) \<and>
   (h \<noteq> [] \<longrightarrow> jwt_verify (replace_first ''Bearer '' [] h) = None \<longrightarrow>
      authMiddleware jwt_verify db (Some h) =
        (Inl (fail 401 TokenInvalido) :: 'a response + req_usuario)) \<and>
   (h \<noteq> [] \<longrightarrow> jwt_verify (replace_first ''Bearer '' [] h) = Some d \<longrightarrow>
    userId d \<notin> set (map usuario_id (usuarios db)) \<longrightarrow>
      authMiddleware jwt_verify db (Some h) =
        (Inl (fail 401 TokenInvalido) :: 'a response + req_usuario)) \<and>
   (h \<noteq> [] \<longrightarrow> jwt_verify (replace_first ''Bearer '' [] h) = Some d \<longrightarrow>
    userId d \<in> set (map usuario_id (usuarios db)) \<longrightarrow>
      (\<exists>ru. authMiddleware jwt_verify db (Some h) = (Inr ru :: 'a response + req_usuario) \<and>
            ru_id ru = userId d)) \<and>
   replace_first ''Bearer '' [] (''Bearer '' @ t) = t"
proof (intro conjI impI)
  assume "h \<noteq> []" "jwt_verify (replace_first ''Bearer '' [] h) = Some d"
    "userId d \<notin> set (map usuario_id (usuarios db))"
  moreover from this have "find (\<lambda>u. usuario_id u = userId d) (usuarios db) = None"
    using find_None_key [of usuario_id "userId d" "usuarios db"] by blast
  ultimately show "authMiddleware jwt_verify db (Some h) =
      (Inl (fail 401 TokenInvalido) :: 'a response + req_usuario)"
    by (simp add: authMiddleware_def)
next
  assume h: "h \<noteq> []" "jwt_verify (replace_first ''Bearer '' [] h) = Some d"
    and "userId d \<in> set (map usuario_id (usuarios db))"
  then obtain u where u: "find (\<lambda>u. usuario_id u = userId d) (usuarios db) = Some u"
    using find_None_key [of usuario_id "userId d" "usuarios db"] by fastforce
  from find_Some_key [OF u] have "usuario_id u = userId d" by simp
  with h u show "\<exists>ru. authMiddleware jwt_verify db (Some h) =
      (Inr ru :: 'a response + req_usuario) \<and> ru_id ru = userId d"
    by (simp add: authMiddleware_def)
next
  show "replace_first ''Bearer '' [] (''Bearer '' @ t) = t"
    by (rule replace_first_prefix) simp
qed (simp_all add: authMiddleware_def)

theorem authMiddleware_unauthorized_witness:
  "authMiddleware ex_jwt_verify ex_db None =
     (Inl (fail 401 TokenDeAcessoRequerido) :: unit response + req_usuario) \<and>
   ex_jwt_verify ''junk'' = None \<and>
   authMiddleware ex_jwt_verify ex_db (Some ''Bearer junk'') =
     (Inl (fail 401 TokenInvalido) :: unit response + req_usuario) \<and>
   ex_jwt_verify ''t3'' = Some \<lparr>userId = ''u3'', payload_email = ''old@x.com''\<rparr> \<and>
   ''u3'' \<notin> set (map usuario_id (usuarios ex_db)) \<and>
   authMiddleware ex_jwt_verify ex_db (Some ''Bearer t3'') =
     (Inl (fail 401 TokenInvalido) :: unit response + req_usuario)"
proof -
  have a: "ex_jwt_verify ''junk'' = None"
    and b: "ex_jwt_verify ''t3'' = Some \<lparr>userId = ''u3'', payload_email = ''old@x.com''\<rparr>"
    and c: "''u3'' \<notin> set (map usuario_id (usuarios ex_db))"
    by (simp_all add: ex_jwt_verify_def ex_rows)
  from authMiddleware_unauthorized [of ex_jwt_verify ex_db "''Bearer junk''"
        "\<lparr>userId = ''u3'', payload_email = ''old@x.com''\<rparr>" "''junk''", where ?'a = unit]
    authMiddleware_unauthorized [of ex_jwt_verify ex_db "''Bearer t3''"
        "\<lparr>userId = ''u3'', payload_email = ''old@x.com''\<rparr>" "''t3''", where ?'a = unit]
    a b c
  show ?thesis by simp
qed

section \<open>Deleting users and clients\<close>

lemma adminMiddleware_admin:
  assumes "authMiddleware jwt_verify db authorization = Inr ru" "ru_role ru = Admin"
  shows "adminMiddleware db ru = None"
  using authMiddleware_Inr [OF assms(1)] assms(2) by (auto simp: adminMiddleware_def)

text \<open>
  C4. For every request that the two middlewares let through as the admin \<open>ru\<close>:
  \<open>DELETE /api/usuarios/:id\<close> with \<open>ru\<close>'s own id answers 400 "Voce nao pode excluir
  sua propria conta" and leaves the database as it was; with the id \<open>x\<close> of another
  stored user it answers 200 and removes that user (the calculations stay, none of them
  naming \<open>x\<close> any more).
\<close>

theorem usuarios_delete_self:
  "authMiddleware jwt_verify db authorization = (Inr ru :: unit response + req_usuario) \<longrightarrow>
   ru_role ru = Admin \<longrightarrow>
     usuarios_delete jwt_verify db authorization (ru_id ru) =
       (db, fail 400 NaoPodeExcluirPropriaConta) \<and>
     (x \<noteq> ru_id ru \<longrightarrow> x \<in> set (map usuario_id (usuarios db)) \<longrightarrow>
        usuarios_delete jwt_verify db authorization x =
          (usuario_delete db x, ok 200 (Some UsuarioExcluido) None) \<and>
        x \<notin> set (map usuario_id (usuarios (usuario_delete db x))) \<and>
        usuarios (usuario_delete db x) = filter (\<lambda>u. usuario_id u \<noteq> x) (usuarios db) \<and>
        clientes (usuario_delete db x) = clientes db \<and>
        map calculo_id (calculos (usuario_delete db x)) = map calculo_id (calculos db) \<and>
        (\<forall>k \<in> set (calculos (usuario_delete db x)). usuarioId k \<noteq> Some x))"
proof (intro impI conjI)
  assume auth: "authMiddleware jwt_verify db authorization =
      (Inr ru :: unit response + req_usuario)"
    and adm: "ru_role ru = Admin"
  have next1: "adminMiddleware db ru = (None :: unit response option)"
    using adminMiddleware_admin [OF auth adm] .
  from authMiddleware_Inr [OF auth]
  obtain u where "find (\<lambda>u. usuario_id u = ru_id ru) (usuarios db) = Some u" by blast
  then show "usuarios_delete jwt_verify db authorization (ru_id ru) =
       (db, fail 400 NaoPodeExcluirPropriaConta)"
    by (simp add: usuarios_delete_def auth next1 usuarios_delete_handler_def)
  assume x: "x \<noteq> ru_id ru" "x \<in> set (map usuario_id (usuarios db))"
  then obtain v where "find (\<lambda>u. usuario_id u = x) (usuarios db) = Some v"
    using find_None_key [of usuario_id x "usuarios db"] by fastforce
  with x show "usuarios_delete jwt_verify db authorization x =
          (usuario_delete db x, ok 200 (Some UsuarioExcluido) None)"
    by (simp add: usuarios_delete_def auth next1 usuarios_delete_handler_def)
  show "x \<notin> set (map usuario_id (usuarios (usuario_delete db x)))"
    by (auto simp: usuario_delete_def)
  show "usuarios (usuario_delete db x) = filter (\<lambda>u. usuario_id u \<noteq> x) (usuarios db)"
    by (simp add: usuario_delete_def)
  show "clientes (usuario_delete db x) = clientes db"
    by (simp add: usuario_delete_def)
  show "map calculo_id (calculos (usuario_delete db x)) = map calculo_id (calculos db)"
    by (simp add: usuario_delete_def comp_def)
  show "\<forall>k \<in> set (calculos (usuario_delete db x)). usuarioId k \<noteq> Some x"
    by (auto simp: usuario_delete_def)
qed

theorem usuarios_delete_self_witness:
  "authMiddleware ex_jwt_verify ex_db (Some ''Bearer t0'') =
     (Inr \<lparr>ru_id = ''u0'', ru_nome = ''Root'', ru_email = ''root@x.com'', ru_role = Admin\<rparr>
        :: unit response + req_usuario) \<and>
   usuarios_delete ex_jwt_verify ex_db (Some ''Bearer t0'') ''u0'' =
     (ex_db, fail 400 NaoPodeExcluirPropriaConta) \<and>
   ''u2'' \<noteq> ''u0'' \<and> ''u2'' \<in> set (map usuario_id (usuarios ex_db)) \<and>
   usuarios_delete ex_jwt_verify ex_db (Some ''Bearer t0'') ''u2'' =
     (ex_db\<lparr>usuarios := [ex_root, ex_ana],
            calculos := [ex_calculo ''kb'' ''u1'',
                         (ex_calculo ''ka'' ''u2'')\<lparr>usuarioId := None\<rparr>]\<rparr>,
      ok 200 (Some UsuarioExcluido) None)"
proof -
  have h1: "authMiddleware ex_jwt_verify ex_db (Some ''Bearer t0'') =
     (Inr \<lparr>ru_id = ''u0'', ru_nome = ''Root'', ru_email = ''root@x.com'', ru_role = Admin\<rparr>
        :: unit response + req_usuario)"
    by (rule ex_auth_root)
  have h2: "''u2'' \<in> set (map usuario_id (usuarios ex_db))"
    by (simp add: ex_rows)
  have h3: "usuario_delete ex_db ''u2'' =
     ex_db\<lparr>usuarios := [ex_root, ex_ana],
            calculos := [ex_calculo ''kb'' ''u1'',
                         (ex_calculo ''ka'' ''u2'')\<lparr>usuarioId := None\<rparr>]\<rparr>"
    by (simp add: usuario_delete_def ex_rows)
  from usuarios_delete_self [of ex_jwt_verify ex_db "Some ''Bearer t0''" _ "''u2''", rule_format, OF h1] h1 h2 h3
  show ?thesis by simp
qed

text \<open>
  C5. For every stored client \<open>i\<close>: \<open>DELETE /api/clientes/:id\<close> answers 400 "Nao e
  possivel deletar cliente que possui calculos" and leaves the database as it was when
  some calculation has \<open>clienteId = i\<close>; when none has, it answers 200 and removes the
  client, and nothing else.
\<close>

theorem clientes_delete_guard:
  "i \<in> set (map cliente_id (clientes db)) \<longrightarrow>
     ((\<exists>k \<in> set (calculos db). clienteId k = i) \<longrightarrow>
        clientes_delete db i = (db, fail 400 ClientePossuiCalculos)) \<and>
     ((\<forall>k \<in> set (calculos db). clienteId k \<noteq> i) \<longrightarrow>
        clientes_delete db i = (cliente_delete db i, ok 200 (Some ClienteDeletado) None) \<and>
        i \<notin> set (map cliente_id (clientes (cliente_delete db i))) \<and>
        clientes (cliente_delete db i) = filter (\<lambda>r. cliente_id r \<noteq> i) (clientes db) \<and>
        calculos (cliente_delete db i) = calculos db \<and>
        usuarios (cliente_delete db i) = usuarios db)"
proof (intro impI conjI)
  assume "i \<in> set (map cliente_id (clientes db))"
  then obtain r where r: "find (\<lambda>r. cliente_id r = i) (clientes db) = Some r"
    using find_None_key [of cliente_id i "clientes db"] by fastforce
  then have ri: "cliente_id r = i" using find_Some_key [of cliente_id i "clientes db" r] by simp
  {
    assume "\<exists>k \<in> set (calculos db). clienteId k = i"
    then have "filter (\<lambda>k. clienteId k = i) (calculos db) \<noteq> []"
      by (simp add: filter_empty_conv)
    with r ri show "clientes_delete db i = (db, fail 400 ClientePossuiCalculos)"
      by (simp add: clientes_delete_def count_rows_def)
  }
  assume none: "\<forall>k \<in> set (calculos db). clienteId k \<noteq> i"
  then have "filter (\<lambda>k. clienteId k = i) (calculos db) = []"
    by (simp add: filter_empty_conv)
  with r ri show "clientes_delete db i = (cliente_delete db i, ok 200 (Some ClienteDeletado) None)"
    by (simp add: clientes_delete_def count_rows_def)
  show "i \<notin> set (map cliente_id (clientes (cliente_delete db i)))"
    by (auto simp: cliente_delete_def)
  show "clientes (cliente_delete db i) = filter (\<lambda>r. cliente_id r \<noteq> i) (clientes db)"
    by (simp add: cliente_delete_def)
  from none show "calculos (cliente_delete db i) = calculos db"
    by (simp add: cliente_delete_def)
  show "usuarios (cliente_delete db i) = usuarios db"
    by (simp add: cliente_delete_def)
qed

theorem clientes_delete_guard_witness:
  "''c1'' \<in> set (map cliente_id (clientes ex_db)) \<and>
   (\<exists>k \<in> set (calculos ex_db). clienteId k = ''c1'') \<and>
   clientes_delete ex_db ''c1'' = (ex_db, fail 400 ClientePossuiCalculos) \<and>
   ''c2'' \<in> set (map cliente_id (clientes ex_db)) \<and>
   ''c2'' \<notin> set (map clienteId (calculos ex_db)) \<and>
   clientes_delete ex_db ''c2'' =
     (ex_db\<lparr>clientes := [ex_joao]\<rparr>, ok 200 (Some ClienteDeletado) None)"
proof -
  have h1: "''c1'' \<in> set (map cliente_id (clientes ex_db))"
    and h2: "\<exists>k \<in> set (calculos ex_db). clienteId k = ''c1''"
    and h3: "''c2'' \<in> set (map cliente_id (clientes ex_db))"
    and h4: "\<forall>k \<in> set (calculos ex_db). clienteId k \<noteq> ''c2''"
    and h5: "cliente_delete ex_db ''c2'' = ex_db\<lparr>clientes := [ex_joao]\<rparr>"
    by (simp_all add: ex_rows cliente_delete_def)
  have h6: "''c2'' \<notin> set (map clienteId (calculos ex_db))"
    by (simp add: ex_rows)
  from clientes_delete_guard [of "''c1''" ex_db, THEN mp, OF h1, THEN conjunct1, THEN mp, OF h2]
    clientes_delete_guard [of "''c2''" ex_db, THEN mp, OF h3, THEN conjunct2, THEN mp, OF h4]
    h1 h2 h3 h5 h6
  show ?thesis by simp
qed

section \<open>Reading and deleting one calculation\<close>

lemma authMiddleware_Inr_any:
  "authMiddleware jwt_verify db authorization = (Inr ru :: 'a response + req_usuario) \<Longrightarrow>
   authMiddleware jwt_verify db authorization = (Inr ru :: 'b response + req_usuario)"
  by (auto simp: authMiddleware_def Let_def split: option.splits if_splits)

lemma foreign_keys_cliente:
  assumes "foreign_keys db" "k \<in> set (calculos db)"
  shows "\<exists>r. find (\<lambda>r. cliente_id r = clienteId k) (clientes db) = Some r \<and>
             cliente_id r = clienteId k"
proof -
  from assms have "clienteId k \<in> set (map cliente_id (clientes db))"
    by (auto simp: foreign_keys_def list_all_iff)
  then obtain r where r: "find (\<lambda>r. cliente_id r = clienteId k) (clientes db) = Some r"
    using find_None_key [of cliente_id "clienteId k" "clientes db"] by fastforce
  with find_Some_key [OF r] show ?thesis by simp
qed

text \<open>
  C7. For every authenticated user \<open>ru\<close>, admin or not, and every id \<open>i\<close>:
  \<open>GET /api/calculos/:id\<close> answers 404 when no calculation has that id and otherwise
  200 with the calculation and its client; \<open>DELETE /api/calculos/:id\<close> answers 404
  when no calculation has that id and otherwise deletes it and answers 200. Neither
  result depends on \<open>ru\<close>. Under the foreign key of the schema the client of a stored
  calculation is always found. In the instance below a user who is not an admin reads and
  deletes a calculation that another user created.
\<close>

theorem calculos_by_id_no_ownership:
  "authMiddleware jwt_verify db authorization = (Inr ru :: unit response + req_usuario) \<longrightarrow>
     calculos_get_id jwt_verify db authorization i =
       (case find (\<lambda>k. calculo_id k = i) (calculos db) of
          None \<Rightarrow> fail 404 CalculoNaoEncontrado
        | Some k \<Rightarrow>
            ok 200 None (Some (k, find (\<lambda>r. cliente_id r = clienteId k) (clientes db)))) \<and>
     calculos_delete jwt_verify db authorization i =
       (case find (\<lambda>k. calculo_id k = i) (calculos db) of
          None \<Rightarrow> (db, fail 404 CalculoNaoEncontrado)
        | Some k \<Rightarrow> (calculo_delete db i, ok 200 (Some CalculoDeletado) None)) \<and>
     calculos (calculo_delete db i) = filter (\<lambda>k. calculo_id k \<noteq> i) (calculos db) \<and>
     (foreign_keys db \<longrightarrow>
        (\<forall>k \<in> set (calculos db).
           \<exists>r. find (\<lambda>r. cliente_id r = clienteId k) (clientes db) = Some r \<and>
               cliente_id r = clienteId k))"
proof (intro impI conjI ballI)
  assume auth: "authMiddleware jwt_verify db authorization =
      (Inr ru :: unit response + req_usuario)"
  show "calculos_get_id jwt_verify db authorization i =
       (case find (\<lambda>k. calculo_id k = i) (calculos db) of
          None \<Rightarrow> fail 404 CalculoNaoEncontrado
        | Some k \<Rightarrow>
            ok 200 None (Some (k, find (\<lambda>r. cliente_id r = clienteId k) (clientes db))))"
    by (simp add: calculos_get_id_def authMiddleware_Inr_any [OF auth] calculos_get_id_handler_def)
  show "calculos_delete jwt_verify db authorization i =
       (case find (\<lambda>k. calculo_id k = i) (calculos db) of
          None \<Rightarrow> (db, fail 404 CalculoNaoEncontrado)
        | Some k \<Rightarrow> (calculo_delete db i, ok 200 (Some CalculoDeletado) None))"
    by (simp add: calculos_delete_def auth calculos_delete_handler_def)
  show "calculos (calculo_delete db i) = filter (\<lambda>k. calculo_id k \<noteq> i) (calculos db)"
    by (simp add: calculo_delete_def)
next
  fix k assume "foreign_keys db" "k \<in> set (calculos db)"
  then show "\<exists>r. find (\<lambda>r. cliente_id r = clienteId k) (clientes db) = Some r \<and>
                cliente_id r = clienteId k"
    by (rule foreign_keys_cliente)
qed

theorem calculos_by_id_no_ownership_witness:
  "authMiddleware ex_jwt_verify ex_db (Some ''Bearer t1'') =
     (Inr \<lparr>ru_id = ''u1'', ru_nome = ''Ana'', ru_email = ''ana@x.com'', ru_role = User\<rparr>
        :: unit response + req_usuario) \<and>
   usuarioId (ex_calculo ''ka'' ''u2'') = Some ''u2'' \<and>
   calculos_get_id ex_jwt_verify ex_db (Some ''Bearer t1'') ''ka'' =
     ok 200 None (Some (ex_calculo ''ka'' ''u2'', Some ex_joao)) \<and>
   calculos_delete ex_jwt_verify ex_db (Some ''Bearer t1'') ''ka'' =
     (ex_db\<lparr>calculos := [ex_calculo ''kb'' ''u1'']\<rparr>, ok 200 (Some CalculoDeletado) None) \<and>
   calculos_get_id ex_jwt_verify ex_db (Some ''Bearer t1'') ''kz'' = fail 404 CalculoNaoEncontrado \<and>
   calculos_delete ex_jwt_verify ex_db (Some ''Bearer t1'') ''kz'' =
     (ex_db, fail 404 CalculoNaoEncontrado) \<and>
   foreign_keys ex_db"
proof -
  have h1: "authMiddleware ex_jwt_verify ex_db (Some ''Bearer t1'') =
     (Inr \<lparr>ru_id = ''u1'', ru_nome = ''Ana'', ru_email = ''ana@x.com'', ru_role = User\<rparr>
        :: unit response + req_usuario)"
    by (rule ex_auth_ana)
  have h2: "find (\<lambda>k. calculo_id k = ''ka'') (calculos ex_db) = Some (ex_calculo ''ka'' ''u2'')"
    "find (\<lambda>k. calculo_id k = ''kz'') (calculos ex_db) = None"
    "find (\<lambda>r. cliente_id r = clienteId (ex_calculo ''ka'' ''u2'')) (clientes ex_db) = Some ex_joao"
    "calculo_delete ex_db ''ka'' = ex_db\<lparr>calculos := [ex_calculo ''kb'' ''u1'']\<rparr>"
    "usuarioId (ex_calculo ''ka'' ''u2'') = Some ''u2''"
    "foreign_keys ex_db"
    by (simp_all add: ex_rows calculo_delete_def foreign_keys_def)
  from calculos_by_id_no_ownership [THEN mp, OF h1, of "''ka''"]
    calculos_by_id_no_ownership [THEN mp, OF h1, of "''kz''"] h1 h2
  show ?thesis by simp
qed

section \<open>Listing calculations\<close>

lemma set_orderBy_desc: "set (orderBy_desc pos key xs) = set xs"
  by (simp add: orderBy_desc_def)

lemma set_orderBy_asc: "set (orderBy_asc pos key xs) = set xs"
  by (simp add: orderBy_asc_def)

lemma mset_orderBy_desc: "mset (orderBy_desc pos key xs) = mset xs"
  by (simp add: orderBy_desc_def)

lemma sorted_orderBy_desc: "sorted_wrt (\<lambda>a b. key b \<le> key a) (orderBy_desc pos key xs)"
proof -
  have "sorted (map (\<lambda>r. - key r) (sort_key (\<lambda>r. - key r) (sort_key pos xs)))"
    by (rule sorted_sort_key)
  then show ?thesis
    by (simp add: orderBy_desc_def sorted_wrt_map)
qed

lemma sorted_orderBy_asc: "sorted_wrt (\<lambda>a b. key a \<le> key b) (orderBy_asc pos key xs)"
proof -
  have "sorted (map key (sort_key key (sort_key pos xs)))"
    by (rule sorted_sort_key)
  then show ?thesis
    by (simp add: orderBy_asc_def sorted_wrt_map)
qed

lemma findMany_subset:
  "findMany pos wh key s t rows = Some ys \<Longrightarrow> set ys \<subseteq> {r \<in> set rows. wh r}"
  by (auto simp: findMany_def set_orderBy_desc set_orderBy_asc split: if_splits
      dest!: in_set_takeD in_set_dropD)

lemma findMany_all:
  assumes "int (length (filter wh rows)) \<le> t"
  shows "\<exists>ys. findMany pos wh key 0 t rows = Some ys \<and> set ys = {r \<in> set rows. wh r}"
proof -
  have "length (orderBy_desc pos key (filter wh rows)) = length (filter wh rows)"
    by (simp add: orderBy_desc_def)
  with assms have "findMany pos wh key 0 t rows = Some (orderBy_desc pos key (filter wh rows))"
    by (simp add: findMany_def)
  then show ?thesis by (auto simp: set_orderBy_desc)
qed

lemma findMany_sorted:
  assumes "findMany pos wh key s t rows = Some ys"
  shows "sorted_wrt (\<lambda>a b. key b \<le> key a) ys"
proof (cases "0 \<le> t")
  case True
  with assms have "ys = take (nat t) (drop (nat s) (orderBy_desc pos key (filter wh rows)))"
    by (auto simp: findMany_def split: if_splits)
  with sorted_orderBy_desc [of key pos "filter wh rows"] show ?thesis
    by (simp add: sorted_wrt_take sorted_wrt_drop)
next
  case False
  with assms
  have ys: "ys = rev (take (nat (- t)) (drop (nat s) (orderBy_asc pos key (filter wh rows))))"
    by (auto simp: findMany_def split: if_splits)
  from sorted_orderBy_asc [of key pos "filter wh rows"]
  have "sorted_wrt (\<lambda>a b. key a \<le> key b)
      (take (nat (- t)) (drop (nat s) (orderBy_asc pos key (filter wh rows))))"
    by (simp add: sorted_wrt_take sorted_wrt_drop)
  then show ?thesis
    unfolding ys by (simp add: sorted_wrt_rev)
qed

lemma calculos_get_handler_data:
  "data (calculos_get_handler pos db ru pg lm cid) = Some rows \<longleftrightarrow>
     (\<exists>ks. findMany pos (calculos_where ru cid) calculo_createdAt
              (((case pg of None \<Rightarrow> 1 | Some x \<Rightarrow> x) - 1) * (case lm of None \<Rightarrow> 50 | Some x \<Rightarrow> x))
              (case lm of None \<Rightarrow> 50 | Some x \<Rightarrow> x) (calculos db) = Some ks \<and>
           rows = map (\<lambda>k. (k, find (\<lambda>r. cliente_id r = clienteId k) (clientes db))) ks)"
  by (auto simp: calculos_get_handler_def Let_def fail_def split: option.splits)

lemma calculos_get_auth:
  "authMiddleware jwt_verify db authorization =
     (Inr ru :: (calculo \<times> cliente option) list response + req_usuario) \<Longrightarrow>
   calculos_get pos jwt_verify db authorization pg lm cid = calculos_get_handler pos db ru pg lm cid"
  by (simp add: calculos_get_def)


text \<open>
  C2. For every authenticated user \<open>ru\<close> and all query values \<open>page\<close>, \<open>limit\<close>,
  \<open>clienteId\<close>: when \<open>ru\<close> is not an admin, every calculation that
  \<open>GET /api/calculos\<close> returns is a stored one whose \<open>usuarioId\<close> is \<open>ru\<close>'s id. When
  \<open>ru\<close> is an admin, every calculation returned matches the \<open>clienteId\<close> filter (an
  absent or empty \<open>clienteId\<close> filters nothing), \<open>total\<close> counts all the stored
  calculations that match, and the first page holds all of them when \<open>limit\<close> is not
  smaller than their number.
\<close>

theorem calculos_get_ownership:
  "authMiddleware jwt_verify db authorization =
     (Inr ru :: (calculo \<times> cliente option) list response + req_usuario) \<longrightarrow>
   (ru_role ru \<noteq> Admin \<longrightarrow>
      (\<forall>rows. data (calculos_get pos jwt_verify db authorization pg lm cid) = Some rows \<longrightarrow>
         (\<forall>kc \<in> set rows. fst kc \<in> set (calculos db) \<and>
                            usuarioId (fst kc) = Some (ru_id ru)))) \<and>
   (ru_role ru = Admin \<longrightarrow>
      (\<forall>rows. data (calculos_get pos jwt_verify db authorization pg lm cid) = Some rows \<longrightarrow>
         fst ` set rows \<subseteq>
           {k \<in> set (calculos db). cid = None \<or> cid = Some [] \<or> cid = Some (clienteId k)}) \<and>
      (\<forall>pgn. pagination (calculos_get pos jwt_verify db authorization pg lm cid) = Some pgn \<longrightarrow>
         total pgn =
           length (filter (\<lambda>k. cid = None \<or> cid = Some [] \<or> cid = Some (clienteId k))
                     (calculos db))) \<and>
      ((pg = None \<or> pg = Some 1) \<longrightarrow>
       int (length (filter (\<lambda>k. cid = None \<or> cid = Some [] \<or> cid = Some (clienteId k))
                      (calculos db))) \<le> (case lm of None \<Rightarrow> 50 | Some l \<Rightarrow> l) \<longrightarrow>
       (\<exists>rows. data (calculos_get pos jwt_verify db authorization pg lm cid) = Some rows \<and>
          fst ` set rows =
            {k \<in> set (calculos db). cid = None \<or> cid = Some [] \<or> cid = Some (clienteId k)})))"
proof (intro impI conjI allI)
  assume auth: "authMiddleware jwt_verify db authorization =
     (Inr ru :: (calculo \<times> cliente option) list response + req_usuario)"
  note route = calculos_get_auth [OF auth]
  {
    fix rows
    assume nadm: "ru_role ru \<noteq> Admin"
      and rows: "data (calculos_get pos jwt_verify db authorization pg lm cid) = Some rows"
    from rows obtain s t ks where
      ks: "findMany pos (calculos_where ru cid) calculo_createdAt s t (calculos db) = Some ks"
      and eq: "rows = map (\<lambda>k. (k, find (\<lambda>r. cliente_id r = clienteId k) (clientes db))) ks"
      unfolding route calculos_get_handler_data by blast
    from findMany_subset [OF ks] nadm
    have "\<forall>k \<in> set ks. k \<in> set (calculos db) \<and> usuarioId k = Some (ru_id ru)"
      by (auto simp: calculos_where_def)
    with eq show "\<forall>kc \<in> set rows. fst kc \<in> set (calculos db) \<and>
                            usuarioId (fst kc) = Some (ru_id ru)"
      by auto
  }
  assume adm: "ru_role ru = Admin"
  then have wh: "calculos_where ru cid =
      (\<lambda>k. cid = None \<or> cid = Some [] \<or> cid = Some (clienteId k))"
    by (auto simp: calculos_where_def fun_eq_iff split: option.splits)
  {
    fix rows
    assume rows: "data (calculos_get pos jwt_verify db authorization pg lm cid) = Some rows"
    from rows obtain s t ks where
      ks: "findMany pos (calculos_where ru cid) calculo_createdAt s t (calculos db) = Some ks"
      and eq: "rows = map (\<lambda>k. (k, find (\<lambda>r. cliente_id r = clienteId k) (clientes db))) ks"
      unfolding route calculos_get_handler_data by blast
    from eq have "fst ` set rows = set ks" by force
    with findMany_subset [OF ks]
    show "fst ` set rows \<subseteq>
           {k \<in> set (calculos db). cid = None \<or> cid = Some [] \<or> cid = Some (clienteId k)}"
      unfolding wh by simp
  }
  {
    fix pgn
    assume "pagination (calculos_get pos jwt_verify db authorization pg lm cid) = Some pgn"
    then show "total pgn =
           length (filter (\<lambda>k. cid = None \<or> cid = Some [] \<or> cid = Some (clienteId k))
                     (calculos db))"
      unfolding route wh [symmetric]
      by (auto simp: calculos_get_handler_def Let_def fail_def count_rows_def split: option.splits)
  }
  assume pg: "pg = None \<or> pg = Some 1"
    and len: "int (length (filter (\<lambda>k. cid = None \<or> cid = Some [] \<or> cid = Some (clienteId k))
                      (calculos db))) \<le> (case lm of None \<Rightarrow> 50 | Some l \<Rightarrow> l)"
  from pg have skip: "((case pg of None \<Rightarrow> 1 | Some x \<Rightarrow> x) - 1) *
      (case lm of None \<Rightarrow> 50 | Some x \<Rightarrow> x) = (0::int)"
    by auto
  from findMany_all [of "calculos_where ru cid" "calculos db" _ pos calculo_createdAt] len
  obtain ks where
    ks: "findMany pos (calculos_where ru cid) calculo_createdAt 0
           (case lm of None \<Rightarrow> 50 | Some l \<Rightarrow> l) (calculos db) = Some ks"
    and all: "set ks = {k \<in> set (calculos db). calculos_where ru cid k}"
    unfolding wh by blast
  let ?rows = "map (\<lambda>k. (k, find (\<lambda>r. cliente_id r = clienteId k) (clientes db))) ks"
  from ks have "findMany pos (calculos_where ru cid) calculo_createdAt
      (((case pg of None \<Rightarrow> 1 | Some x \<Rightarrow> x) - 1) * (case lm of None \<Rightarrow> 50 | Some x \<Rightarrow> x))
      (case lm of None \<Rightarrow> 50 | Some l \<Rightarrow> l) (calculos db) = Some ks"
    by (simp only: skip)
  then have "data (calculos_get pos jwt_verify db authorization pg lm cid) = Some ?rows"
    unfolding route calculos_get_handler_data by blast
  moreover have "fst ` set ?rows = set ks" by force
  ultimately show "\<exists>rows. data (calculos_get pos jwt_verify db authorization pg lm cid) = Some rows \<and>
          fst ` set rows =
            {k \<in> set (calculos db). cid = None \<or> cid = Some [] \<or> cid = Some (clienteId k)}"
    using all unfolding wh by blast
qed

lemma ex_list_ana:
  "calculos_get ex_pos ex_jwt_verify ex_db (Some ''Bearer t1'') None None (Some ''c1'') =
     \<lparr>status = 200, success = True, message = None,
      data = Some [(ex_calculo ''kb'' ''u1'', Some ex_joao)],
      pagination = Some \<lparr>page = 1, limit = 50, total = 1\<rparr>\<rparr>"
  apply (simp add: calculos_get_def ex_auth_ana)
  apply (simp add: calculos_get_handler_def findMany_def orderBy_desc_def ex_pos_def
      calculos_where_def count_rows_def ex_rows)
  done

lemma ex_list_root:
  "calculos_get ex_pos ex_jwt_verify ex_db (Some ''Bearer t0'') None None None =
     \<lparr>status = 200, success = True, message = None,
      data = Some [(ex_calculo ''kb'' ''u1'', Some ex_joao), (ex_calculo ''ka'' ''u2'', Some ex_joao)],
      pagination = Some \<lparr>page = 1, limit = 50, total = 2\<rparr>\<rparr>"
  apply (simp add: calculos_get_def ex_auth_root)
  apply (simp add: calculos_get_handler_def findMany_def orderBy_desc_def ex_pos_def
      calculos_where_def count_rows_def ex_rows)
  done

text \<open>
  With \<open>limit = -1\<close> the client reads the first row of the opposite order, which the
  same store gives as \<open>kb\<close>.
\<close>

lemma ex_list_root_negative:
  "data (calculos_get ex_pos ex_jwt_verify ex_db (Some ''Bearer t0'') (Some 1) (Some (- 1)) None) =
     Some [(ex_calculo ''kb'' ''u1'', Some ex_joao)]"
  apply (simp add: calculos_get_def ex_auth_root)
  apply (simp add: calculos_get_handler_def findMany_def orderBy_asc_def ex_pos_def
      calculos_where_def count_rows_def ex_rows)
  done

theorem calculos_get_ownership_witness:
  "authMiddleware ex_jwt_verify ex_db (Some ''Bearer t1'') =
     (Inr \<lparr>ru_id = ''u1'', ru_nome = ''Ana'', ru_email = ''ana@x.com'', ru_role = User\<rparr>
        :: (calculo \<times> cliente option) list response + req_usuario) \<and>
   data (calculos_get ex_pos ex_jwt_verify ex_db (Some ''Bearer t1'') None None (Some ''c1'')) =
     Some [(ex_calculo ''kb'' ''u1'', Some ex_joao)] \<and>
   ex_calculo ''kb'' ''u1'' \<in> set (calculos ex_db) \<and>
   usuarioId (ex_calculo ''kb'' ''u1'') = Some ''u1'' \<and>
   authMiddleware ex_jwt_verify ex_db (Some ''Bearer t0'') =
     (Inr \<lparr>ru_id = ''u0'', ru_nome = ''Root'', ru_email = ''root@x.com'', ru_role = Admin\<rparr>
        :: (calculo \<times> cliente option) list response + req_usuario) \<and>
   int (length (calculos ex_db)) \<le> 50 \<and>
   (\<exists>rows. data (calculos_get ex_pos ex_jwt_verify ex_db (Some ''Bearer t0'') None None None) = Some rows \<and>
      fst ` set rows = set (calculos ex_db))"
proof -
  have h1: "authMiddleware ex_jwt_verify ex_db (Some ''Bearer t1'') =
     (Inr \<lparr>ru_id = ''u1'', ru_nome = ''Ana'', ru_email = ''ana@x.com'', ru_role = User\<rparr>
        :: (calculo \<times> cliente option) list response + req_usuario)"
    by (rule ex_auth_ana)
  have h2: "data (calculos_get ex_pos ex_jwt_verify ex_db (Some ''Bearer t1'') None None (Some ''c1'')) =
     Some [(ex_calculo ''kb'' ''u1'', Some ex_joao)]"
    by (simp add: ex_list_ana)
  have h3: "authMiddleware ex_jwt_verify ex_db (Some ''Bearer t0'') =
     (Inr \<lparr>ru_id = ''u0'', ru_nome = ''Root'', ru_email = ''root@x.com'', ru_role = Admin\<rparr>
        :: (calculo \<times> cliente option) list response + req_usuario)"
    by (rule ex_auth_root)
  have h4: "int (length (calculos ex_db)) \<le> 50"
    by (simp add: ex_db_def)
  from calculos_get_ownership [THEN mp, OF h1, THEN conjunct1, of ex_pos None None "Some ''c1''"] h2
  have a: "ex_calculo ''kb'' ''u1'' \<in> set (calculos ex_db) \<and>
      usuarioId (ex_calculo ''kb'' ''u1'') = Some ''u1''"
    by simp
  from calculos_get_ownership [THEN mp, OF h3, THEN conjunct2, of ex_pos None None None] h4
  have b: "\<exists>rows. data (calculos_get ex_pos ex_jwt_verify ex_db (Some ''Bearer t0'') None None None) = Some rows \<and>
      fst ` set rows = set (calculos ex_db)"
    by simp
  from h1 h2 a h3 h4 b show ?thesis by blast
qed

text \<open>
  C9, as stated, fails: the two calculations of the example database have the same
  \<open>createdAt\<close>, and with a store that reads the rows as the table lists them the list
  returns \<open>kb\<close> before \<open>ka\<close> although \<open>ka\<close> is the smaller id. The handler orders by
  \<open>createdAt\<close> only.
\<close>

theorem calculos_get_ties_counterexample:
  "map_option (map (calculo_id \<circ> fst))
     (data (calculos_get ex_pos ex_jwt_verify ex_db (Some ''Bearer t0'') None None None)) =
     Some [''kb'', ''ka''] \<and>
   calculo_createdAt (ex_calculo ''kb'' ''u1'') = calculo_createdAt (ex_calculo ''ka'' ''u2'') \<and>
   ''ka'' < ''kb''"
  by (simp add: ex_list_root ex_calculo_def)

text \<open>
  C9, amended. \<open>GET /api/calculos\<close> returns its rows ordered by \<open>createdAt\<close>
  descending and paginated: whatever the query values and the store's order of reading,
  the rows of a response are in descending order of \<open>createdAt\<close>; and for \<open>limit \<ge> 0\<close>
  and \<open>(page - 1) * limit \<ge> 0\<close> they are the \<open>limit\<close> rows after the first
  \<open>(page - 1) * limit\<close> of an arrangement of all the matching calculations in descending
  order of \<open>createdAt\<close>. No tie-break by id is applied.
\<close>

theorem calculos_get_order:
  "authMiddleware jwt_verify db authorization =
     (Inr ru :: (calculo \<times> cliente option) list response + req_usuario) \<longrightarrow>
   (\<forall>rows. data (calculos_get pos jwt_verify db authorization pg lm cid) = Some rows \<longrightarrow>
      sorted_wrt (\<lambda>a b. calculo_createdAt b \<le> calculo_createdAt a) (map fst rows)) \<and>
   (0 \<le> l \<longrightarrow> 0 \<le> (p - 1) * l \<longrightarrow>
      (\<exists>ordered.
         mset ordered = mset (filter (calculos_where ru cid) (calculos db)) \<and>
         sorted_wrt (\<lambda>a b. calculo_createdAt b \<le> calculo_createdAt a) ordered \<and>
         data (calculos_get pos jwt_verify db authorization (Some p) (Some l) cid) =
           Some (map (\<lambda>k. (k, find (\<lambda>r. cliente_id r = clienteId k) (clientes db)))
                  (take (nat l) (drop (nat ((p - 1) * l)) ordered)))))"
proof (intro impI conjI allI)
  assume auth: "authMiddleware jwt_verify db authorization =
     (Inr ru :: (calculo \<times> cliente option) list response + req_usuario)"
  note route = calculos_get_auth [OF auth]
  {
    fix rows
    assume "data (calculos_get pos jwt_verify db authorization pg lm cid) = Some rows"
    then obtain s t ks where
      ks: "findMany pos (calculos_where ru cid) calculo_createdAt s t (calculos db) = Some ks"
      and eq: "rows = map (\<lambda>k. (k, find (\<lambda>r. cliente_id r = clienteId k) (clientes db))) ks"
      unfolding route calculos_get_handler_data by blast
    from eq have "map fst rows = ks" by (simp add: comp_def)
    with findMany_sorted [OF ks]
    show "sorted_wrt (\<lambda>a b. calculo_createdAt b \<le> calculo_createdAt a) (map fst rows)"
      by simp
  }
  assume l: "0 \<le> l" "0 \<le> (p - 1) * l"
  let ?ordered = "orderBy_desc pos calculo_createdAt (filter (calculos_where ru cid) (calculos db))"
  have "mset ?ordered = mset (filter (calculos_where ru cid) (calculos db))"
    by (rule mset_orderBy_desc)
  moreover have "sorted_wrt (\<lambda>a b. calculo_createdAt b \<le> calculo_createdAt a) ?ordered"
    by (rule sorted_orderBy_desc)
  moreover from l
  have "data (calculos_get pos jwt_verify db authorization (Some p) (Some l) cid) =
      Some (map (\<lambda>k. (k, find (\<lambda>r. cliente_id r = clienteId k) (clientes db)))
             (take (nat l) (drop (nat ((p - 1) * l)) ?ordered)))"
    unfolding route calculos_get_handler_data by (simp add: findMany_def)
  ultimately show "\<exists>ordered.
         mset ordered = mset (filter (calculos_where ru cid) (calculos db)) \<and>
         sorted_wrt (\<lambda>a b. calculo_createdAt b \<le> calculo_createdAt a) ordered \<and>
         data (calculos_get pos jwt_verify db authorization (Some p) (Some l) cid) =
           Some (map (\<lambda>k. (k, find (\<lambda>r. cliente_id r = clienteId k) (clientes db)))
                  (take (nat l) (drop (nat ((p - 1) * l)) ordered)))"
    by blast
qed

theorem calculos_get_order_witness:
  "authMiddleware ex_jwt_verify ex_db (Some ''Bearer t0'') =
     (Inr \<lparr>ru_id = ''u0'', ru_nome = ''Root'', ru_email = ''root@x.com'', ru_role = Admin\<rparr>
        :: (calculo \<times> cliente option) list response + req_usuario) \<and>
   data (calculos_get ex_pos ex_jwt_verify ex_db (Some ''Bearer t0'') None None None) =
     Some [(ex_calculo ''kb'' ''u1'', Some ex_joao), (ex_calculo ''ka'' ''u2'', Some ex_joao)] \<and>
   sorted_wrt (\<lambda>a b. calculo_createdAt b \<le> calculo_createdAt a)
     (map fst [(ex_calculo ''kb'' ''u1'', Some ex_joao),
               (ex_calculo ''ka'' ''u2'', Some ex_joao)]) \<and>
   (0::int) \<le> 1 \<and> (0::int) \<le> (2 - 1) * 1 \<and>
   (\<exists>ordered.
      mset ordered = mset (calculos ex_db) \<and>
      sorted_wrt (\<lambda>a b. calculo_createdAt b \<le> calculo_createdAt a) ordered \<and>
      data (calculos_get ex_pos ex_jwt_verify ex_db (Some ''Bearer t0'') (Some 2) (Some 1) None) =
        Some (map (\<lambda>k. (k, find (\<lambda>r. cliente_id r = clienteId k) (clientes ex_db)))
               (take 1 (drop 1 ordered))))"
proof -
  let ?root = "\<lparr>ru_id = ''u0'', ru_nome = ''Root'', ru_email = ''root@x.com'', ru_role = Admin\<rparr>"
  have h1: "authMiddleware ex_jwt_verify ex_db (Some ''Bearer t0'') =
     (Inr ?root :: (calculo \<times> cliente option) list response + req_usuario)"
    by (rule ex_auth_root)
  have h2: "data (calculos_get ex_pos ex_jwt_verify ex_db (Some ''Bearer t0'') None None None) =
     Some [(ex_calculo ''kb'' ''u1'', Some ex_joao), (ex_calculo ''ka'' ''u2'', Some ex_joao)]"
    by (simp add: ex_list_root)
  have h3: "(0::int) \<le> 1" "(0::int) \<le> (2 - 1) * 1" by simp_all
  have wh: "filter (calculos_where ?root None) (calculos ex_db) = calculos ex_db"
    by (simp add: calculos_where_def)
  from calculos_get_order [THEN mp, OF h1, THEN conjunct1, THEN spec, THEN mp, OF h2]
  have a: "sorted_wrt (\<lambda>a b. calculo_createdAt b \<le> calculo_createdAt a)
     (map fst [(ex_calculo ''kb'' ''u1'', Some ex_joao),
               (ex_calculo ''ka'' ''u2'', Some ex_joao)])" .
  from calculos_get_order [THEN mp, OF h1, THEN conjunct2, THEN mp, OF h3(1), THEN mp, OF h3(2),
      of None ex_pos]
  have b: "\<exists>ordered.
      mset ordered = mset (calculos ex_db) \<and>
      sorted_wrt (\<lambda>a b. calculo_createdAt b \<le> calculo_createdAt a) ordered \<and>
      data (calculos_get ex_pos ex_jwt_verify ex_db (Some ''Bearer t0'') (Some 2) (Some 1) None) =
        Some (map (\<lambda>k. (k, find (\<lambda>r. cliente_id r = clienteId k) (clientes ex_db)))
               (take 1 (drop 1 ordered)))"
    unfolding wh by simp
  from h1 h2 a h3 b show ?thesis by blast
qed

section \<open>Searching clients\<close>

lemma like_percent: "like lower ''%'' x = Some True"
  by (induction x) simp_all

lemma like_plain_prefix:
  "no_pattern_char p \<Longrightarrow> like lower (p @ ''%'') x = Some (prefix (map lower p) (map lower x))"
proof (induction p arbitrary: x)
  case Nil
  then show ?case by (simp add: like_percent del: like.simps)
next
  case (Cons c p)
  then show ?case by (cases x) (simp_all add: no_pattern_char_def)
qed

lemma like_plain_contains:
  assumes "no_pattern_char p"
  shows "like lower (CHR ''%'' # p @ ''%'') x = Some (sublist (map lower p) (map lower x))"
proof (induction x)
  case Nil
  show ?case
    using like_plain_prefix [OF assms, of lower "[]"] by (cases "p = []") simp_all
next
  case (Cons y x)
  have "like lower (CHR ''%'' # p @ ''%'') (y # x) =
      (case like lower (p @ ''%'') (y # x) of
         None \<Rightarrow> None
       | Some True \<Rightarrow> Some True
       | Some False \<Rightarrow> like lower (CHR ''%'' # p @ ''%'') x)"
    by (subst like.simps(2)) (simp del: like.simps split: option.splits bool.splits)
  with like_plain_prefix [OF assms, of lower "y # x"] Cons show ?case
    by (auto simp add: sublist_Cons_right simp del: like.simps split: bool.splits)
qed

text \<open>A pattern that is empty or ends in \<open>%\<close> is never refused.\<close>

lemma like_total:
  "p = [] \<or> last p = CHR ''%'' \<Longrightarrow> like lower p x \<noteq> None"
proof (induction p arbitrary: x rule: length_induct)
  case (1 p)
  show ?case
  proof (cases p)
    case Nil
    then show ?thesis by simp
  next
    case (Cons c ps)
    with "1.prems" have lst: "last (c # ps) = CHR ''%''" by simp
    then have "ps = [] \<or> last ps = CHR ''%''" by (cases ps) simp_all
    with "1.IH" Cons have tail: "like lower ps y \<noteq> None" for y
      by (cases "ps = []") auto
    consider (any) "c = CHR ''%''" | (one) "c = CHR ''_''" | (esc) "c = CHR 0x5C"
      | (lit) "c \<noteq> CHR ''%''" "c \<noteq> CHR ''_''" "c \<noteq> CHR 0x5C"
      by blast
    then show ?thesis
    proof cases
      case any
      have "like lower (CHR ''%'' # ps) y \<noteq> None" for y
      proof (induction y)
        case Nil
        from tail [of "[]"] show ?case by (auto split: option.splits bool.splits)
      next
        case (Cons a y)
        have "like lower (CHR ''%'' # ps) (a # y) =
          (case like lower ps (a # y) of
             None \<Rightarrow> None
           | Some True \<Rightarrow> Some True
           | Some False \<Rightarrow> like lower (CHR ''%'' # ps) y)"
          by (subst like.simps(2)) (simp del: like.simps split: option.splits bool.splits)
        with tail [of "a # y"] Cons show ?case
          by (auto split: option.splits bool.splits)
      qed
      with any Cons show ?thesis by simp
    next
      case one
      with tail Cons show ?thesis by (cases x) auto
    next
      case esc
      with lst obtain q qs where ps: "ps = q # qs" by (cases ps) auto
      with lst have "qs = [] \<or> last qs = CHR ''%''" by (cases qs) simp_all
      with "1.IH" Cons ps have "like lower qs y \<noteq> None" for y
        by (cases "qs = []") auto
      with esc Cons ps show ?thesis by (cases x) auto
    next
      case lit
      with tail Cons show ?thesis by (cases x) auto
    qed
  qed
qed

lemma contains_plain:
  "no_pattern_char s \<Longrightarrow> contains lower field s \<longleftrightarrow> sublist (map lower s) (map lower field)"
  using like_plain_contains [of s lower field] by (simp add: contains_def del: like.simps)

lemma ex_search_345:
  "clientes_get ex_lower ex_pos ex_db None None (Some ''345'') =
     \<lparr>status = 200, success = True, message = None, data = Some [(ex_joao, 2)],
      pagination = Some \<lparr>page = 1, limit = 50, total = 1\<rparr>\<rparr>"
  by (simp add: clientes_get_def findMany_def orderBy_desc_def ex_pos_def clientes_where_def
      contains_def count_rows_def ex_lower_def ex_rows)

lemma ex_search_1_3:
  "clientes_get ex_lower ex_pos ex_db None None (Some ''1_3'') =
     \<lparr>status = 200, success = True, message = None, data = Some [(ex_joao, 2)],
      pagination = Some \<lparr>page = 1, limit = 50, total = 1\<rparr>\<rparr>"
  by (simp add: clientes_get_def findMany_def orderBy_desc_def ex_pos_def clientes_where_def
      contains_def count_rows_def ex_lower_def ex_rows)

lemma ex_search_maria:
  "clientes_get ex_lower ex_pos ex_db None None (Some ''maria'') =
     \<lparr>status = 200, success = True, message = None, data = Some [(ex_maria, 0)],
      pagination = Some \<lparr>page = 1, limit = 50, total = 1\<rparr>\<rparr>"
  by (simp add: clientes_get_def findMany_def orderBy_desc_def ex_pos_def clientes_where_def
      contains_def count_rows_def ex_lower_def ex_rows)

lemma clientes_get_data:
  "data (clientes_get lower pos db pg lm search) = Some rows \<longleftrightarrow>
     (\<exists>cs. findMany pos (clientes_where lower search) cliente_createdAt
              (((case pg of None \<Rightarrow> 1 | Some x \<Rightarrow> x) - 1) * (case lm of None \<Rightarrow> 50 | Some x \<Rightarrow> x))
              (case lm of None \<Rightarrow> 50 | Some x \<Rightarrow> x) (clientes db) = Some cs \<and>
           rows = map (\<lambda>r. (r, count_rows (\<lambda>k. clienteId k = cliente_id r) (calculos db))) cs)"
  by (auto simp: clientes_get_def Let_def fail_def split: option.splits)

text \<open>
  C8, as stated, fails for the CPF: the search \<open>345\<close> returns the client whose CPF is
  \<open>12345678901\<close>, although neither the name nor the e-mail matches and the CPF is not
  \<open>345\<close>. So does the search \<open>1_3\<close>, which is not even a part of that CPF: the filter
  on the CPF is a pattern match, as for the other two fields.
\<close>

theorem clientes_get_search_counterexample:
  "data (clientes_get ex_lower ex_pos ex_db None None (Some ''345'')) = Some [(ex_joao, 2)] \<and>
   data (clientes_get ex_lower ex_pos ex_db None None (Some ''1_3'')) = Some [(ex_joao, 2)] \<and>
   cliente_cpf ex_joao = ''12345678901'' \<and>
   ''12345678901'' \<noteq> ''345'' \<and> ''12345678901'' \<noteq> ''1_3'' \<and>
   \<not> contains ex_lower (cliente_nome ex_joao) ''345'' \<and>
   \<not> contains ex_lower (cliente_email ex_joao) ''345'' \<and>
   \<not> contains ex_lower (cliente_nome ex_joao) ''1_3'' \<and>
   \<not> contains ex_lower (cliente_email ex_joao) ''1_3'' \<and>
   \<not> sublist ''1_3'' ''12345678901''"
  by (simp add: ex_search_345 ex_search_1_3 contains_def ex_lower_def ex_joao_def
      sublist_Cons_right)

text \<open>
  C8, amended. For every search string \<open>s\<close>, every case folding \<open>lower\<close> of the store and
  every order of reading, \<open>GET /api/clientes\<close> selects the clients whose name matches the
  pattern \<open>%s%\<close> under the folding, or whose e-mail does, or whose CPF matches \<open>%s%\<close>
  as it is written; one of the three is enough. In the pattern the characters \<open>%\<close>,
  \<open>_\<close> and backslash of \<open>s\<close> keep their meaning; the store never refuses such a
  pattern. When \<open>s\<close> has none of these characters the selected clients are those whose
  name contains \<open>s\<close> after case folding, or whose e-mail does, or whose CPF contains
  \<open>s\<close> as it is written (the empty string is contained in every field). Every client
  returned is selected, \<open>total\<close> counts all the selected clients, and the first page
  holds all of them when \<open>limit\<close> is not smaller than their number.
\<close>

theorem clientes_get_search:
  "(clientes_where lower (Some s) r \<longleftrightarrow>
      like lower (''%'' @ s @ ''%'') (cliente_nome r) = Some True \<or>
      like lower (''%'' @ s @ ''%'') (cliente_email r) = Some True \<or>
      like (\<lambda>c. c) (''%'' @ s @ ''%'') (cliente_cpf r) = Some True) \<and>
   like lower (''%'' @ s @ ''%'') x \<noteq> None \<and>
   (no_pattern_char s \<longrightarrow>
      (clientes_where lower (Some s) r \<longleftrightarrow>
         sublist (map lower s) (map lower (cliente_nome r)) \<or>
         sublist (map lower s) (map lower (cliente_email r)) \<or>
         sublist s (cliente_cpf r))) \<and>
   (\<forall>rows. data (clientes_get lower pos db pg lm (Some s)) = Some rows \<longrightarrow>
      fst ` set rows \<subseteq> {r \<in> set (clientes db). clientes_where lower (Some s) r}) \<and>
   (\<forall>pgn. pagination (clientes_get lower pos db pg lm (Some s)) = Some pgn \<longrightarrow>
      total pgn = length (filter (clientes_where lower (Some s)) (clientes db))) \<and>
   ((pg = None \<or> pg = Some 1) \<longrightarrow>
    int (length (filter (clientes_where lower (Some s)) (clientes db))) \<le>
      (case lm of None \<Rightarrow> 50 | Some l \<Rightarrow> l) \<longrightarrow>
    (\<exists>rows. data (clientes_get lower pos db pg lm (Some s)) = Some rows \<and>
       fst ` set rows = {r \<in> set (clientes db). clientes_where lower (Some s) r}))"
proof (intro conjI allI impI)
  have all: "like lw ''%%'' y = Some True" for lw y
    using like_plain_contains [of "[]" lw y] by (simp add: no_pattern_char_def del: like.simps)
  show "clientes_where lower (Some s) r \<longleftrightarrow>
      like lower (''%'' @ s @ ''%'') (cliente_nome r) = Some True \<or>
      like lower (''%'' @ s @ ''%'') (cliente_email r) = Some True \<or>
      like (\<lambda>c. c) (''%'' @ s @ ''%'') (cliente_cpf r) = Some True"
    using all by (cases "s = []") (simp_all add: clientes_where_def contains_def del: like.simps)
next
  show "like lower (''%'' @ s @ ''%'') x \<noteq> None"
    by (rule like_total) simp
next
  assume plain: "no_pattern_char s"
  have "clientes_where lower (Some s) r \<longleftrightarrow>
      contains lower (cliente_nome r) s \<or> contains lower (cliente_email r) s \<or>
      contains (\<lambda>c. c) (cliente_cpf r) s"
    using contains_plain [OF plain, of lower "cliente_nome r"]
    by (cases "s = []") (simp_all add: clientes_where_def)
  with contains_plain [OF plain, of lower] contains_plain [OF plain, of "\<lambda>c. c" "cliente_cpf r"]
  show "clientes_where lower (Some s) r \<longleftrightarrow>
         sublist (map lower s) (map lower (cliente_nome r)) \<or>
         sublist (map lower s) (map lower (cliente_email r)) \<or>
         sublist s (cliente_cpf r)"
    by simp
next
  fix rows
  assume "data (clientes_get lower pos db pg lm (Some s)) = Some rows"
  then obtain sk tk cs where
    cs: "findMany pos (clientes_where lower (Some s)) cliente_createdAt sk tk (clientes db) =
      Some cs"
    and eq: "rows = map (\<lambda>r. (r, count_rows (\<lambda>k. clienteId k = cliente_id r) (calculos db))) cs"
    unfolding clientes_get_data by blast
  from eq have "fst ` set rows = set cs" by force
  with findMany_subset [OF cs]
  show "fst ` set rows \<subseteq> {r \<in> set (clientes db). clientes_where lower (Some s) r}"
    by simp
next
  fix pgn
  assume "pagination (clientes_get lower pos db pg lm (Some s)) = Some pgn"
  then show "total pgn = length (filter (clientes_where lower (Some s)) (clientes db))"
    by (auto simp: clientes_get_def Let_def fail_def count_rows_def split: option.splits)
next
  assume pg: "pg = None \<or> pg = Some 1"
    and len: "int (length (filter (clientes_where lower (Some s)) (clientes db))) \<le>
      (case lm of None \<Rightarrow> 50 | Some l \<Rightarrow> l)"
  from pg have skip: "((case pg of None \<Rightarrow> 1 | Some x \<Rightarrow> x) - 1) *
      (case lm of None \<Rightarrow> 50 | Some x \<Rightarrow> x) = (0::int)"
    by auto
  from findMany_all [OF len, of pos cliente_createdAt]
  obtain cs where
    cs: "findMany pos (clientes_where lower (Some s)) cliente_createdAt 0
           (case lm of None \<Rightarrow> 50 | Some l \<Rightarrow> l) (clientes db) = Some cs"
    and all: "set cs = {r \<in> set (clientes db). clientes_where lower (Some s) r}"
    by blast
  let ?rows = "map (\<lambda>r. (r, count_rows (\<lambda>k. clienteId k = cliente_id r) (calculos db))) cs"
  from cs have "findMany pos (clientes_where lower (Some s)) cliente_createdAt
      (((case pg of None \<Rightarrow> 1 | Some x \<Rightarrow> x) - 1) * (case lm of None \<Rightarrow> 50 | Some x \<Rightarrow> x))
      (case lm of None \<Rightarrow> 50 | Some l \<Rightarrow> l) (clientes db) = Some cs"
    by (simp only: skip)
  then have "data (clientes_get lower pos db pg lm (Some s)) = Some ?rows"
    unfolding clientes_get_data by blast
  moreover have "fst ` set ?rows = set cs" by force
  ultimately show "\<exists>rows. data (clientes_get lower pos db pg lm (Some s)) = Some rows \<and>
       fst ` set rows = {r \<in> set (clientes db). clientes_where lower (Some s) r}"
    using all by blast
qed

theorem clientes_get_search_witness:
  "no_pattern_char ''maria'' \<and>
   data (clientes_get ex_lower ex_pos ex_db None None (Some ''maria'')) = Some [(ex_maria, 0)] \<and>
   fst ` set [(ex_maria, 0::nat)] \<subseteq>
     {r \<in> set (clientes ex_db). clientes_where ex_lower (Some ''maria'') r} \<and>
   sublist (map ex_lower ''maria'') (map ex_lower (cliente_nome ex_maria)) \<and>
   \<not> clientes_where ex_lower (Some ''maria'') ex_joao \<and>
   int (length (filter (clientes_where ex_lower (Some ''maria'')) (clientes ex_db))) \<le> 50 \<and>
   (\<exists>rows. data (clientes_get ex_lower ex_pos ex_db None None (Some ''maria'')) = Some rows \<and>
      fst ` set rows = {r \<in> set (clientes ex_db). clientes_where ex_lower (Some ''maria'') r}) \<and>
   like ex_lower (''%'' @ ''jo'' @ [CHR 0xE3] @ ''o'' @ ''%'') (''JO'' @ [CHR 0xC3] @ ''O'') =
     Some True"
proof -
  have h0: "no_pattern_char ''maria''"
    by (simp add: no_pattern_char_def)
  have h1: "data (clientes_get ex_lower ex_pos ex_db None None (Some ''maria'')) =
      Some [(ex_maria, 0)]"
    by (simp add: ex_search_maria)
  have h2: "int (length (filter (clientes_where ex_lower (Some ''maria'')) (clientes ex_db))) \<le> 50"
    by (simp add: ex_db_def)
  have h3: "clientes_where ex_lower (Some ''maria'') ex_maria"
    "\<not> clientes_where ex_lower (Some ''maria'') ex_joao"
    by (simp_all add: clientes_where_def contains_def ex_lower_def ex_maria_def ex_joao_def)
  have h4: "like ex_lower (''%'' @ ''jo'' @ [CHR 0xE3] @ ''o'' @ ''%'') (''JO'' @ [CHR 0xC3] @ ''O'') =
     Some True"
    by (simp add: ex_lower_def)
  note T = clientes_get_search [of ex_lower "''maria''" _ _ ex_pos ex_db None None]
  from T [THEN conjunct2, THEN conjunct2, THEN conjunct2, THEN conjunct1, THEN spec, THEN mp,
      OF h1]
  have a: "fst ` set [(ex_maria, 0::nat)] \<subseteq>
      {r \<in> set (clientes ex_db). clientes_where ex_lower (Some ''maria'') r}" .
  from T [of ex_maria, THEN conjunct2, THEN conjunct2, THEN conjunct1, THEN mp, OF h0] h3(1)
  have b: "sublist (map ex_lower ''maria'') (map ex_lower (cliente_nome ex_maria))"
    by (simp add: ex_maria_def contains_plain [OF h0, symmetric] contains_def ex_lower_def)
  from T [THEN conjunct2, THEN conjunct2, THEN conjunct2, THEN conjunct2, THEN conjunct2] h2
  have c: "\<exists>rows. data (clientes_get ex_lower ex_pos ex_db None None (Some ''maria'')) = Some rows \<and>
      fst ` set rows = {r \<in> set (clientes ex_db). clientes_where ex_lower (Some ''maria'') r}"
    by simp
  from h0 h1 a b h3(2) h2 c h4 show ?thesis by blast
qed

section \<open>The client upsert\<close>

lemma find_append_new:
  "v \<notin> set (map f xs) \<Longrightarrow> f y = v \<Longrightarrow> find (\<lambda>r. f r = v) (xs @ [y]) = Some y"
  by (induction xs) auto

lemma find_map_keep:
  "(\<And>x. f x = v \<Longrightarrow> f (g x) = v) \<Longrightarrow>
   find (\<lambda>r. f r = v) (map (\<lambda>x. if f x = v then g x else x) xs) =
     map_option g (find (\<lambda>r. f r = v) xs)"
  by (induction xs) auto

lemma filter_key_distinct:
  "distinct (map f xs) \<Longrightarrow> v \<in> set (map f xs) \<Longrightarrow> length (filter (\<lambda>r. f r = v) xs) = 1"
proof (induction xs)
  case Nil
  then show ?case by simp
next
  case (Cons x xs)
  show ?case
  proof (cases "f x = v")
    case True
    with Cons.prems have "v \<notin> f ` set xs" by simp
    then have "\<forall>r \<in> set xs. f r \<noteq> v" by blast
    then have "filter (\<lambda>r. f r = v) xs = []"
      by (simp add: filter_empty_conv)
    with True show ?thesis by simp
  next
    case False
    with Cons show ?thesis by auto
  qed
qed

lemma upsert_cliente_found:
  assumes "find (\<lambda>r. cliente_cpf r = cpf dados) (clientes db) = Some r"
  shows "upsert_cliente agora novo_id db dados =
     Some (db\<lparr>clientes := map (\<lambda>x. if cliente_cpf x = cpf dados then cliente_set agora dados x
                                    else x) (clientes db)\<rparr>, cliente_set agora dados r)"
  using assms by (simp add: upsert_cliente_def cliente_update_by_cpf_def)

lemma upsert_cliente_new:
  assumes "find (\<lambda>r. cliente_cpf r = cpf dados) (clientes db) = None"
    and "novo_id \<notin> set (map cliente_id (clientes db))"
  shows "upsert_cliente agora novo_id db dados =
     Some (db\<lparr>clientes := clientes db @
              [\<lparr>cliente_id = novo_id, cliente_nome = nome dados,
                cliente_telefone = telefone dados, cliente_cpf = cpf dados,
                cliente_email = email dados, cliente_createdAt = agora,
                cliente_updatedAt = agora\<rparr>]\<rparr>,
           \<lparr>cliente_id = novo_id, cliente_nome = nome dados,
            cliente_telefone = telefone dados, cliente_cpf = cpf dados,
            cliente_email = email dados, cliente_createdAt = agora,
            cliente_updatedAt = agora\<rparr>)"
proof -
  from assms(1) have "cpf dados \<notin> set (map cliente_cpf (clientes db))"
    using find_None_key [of cliente_cpf "cpf dados" "clientes db"] by blast
  with assms show ?thesis
    by (simp add: upsert_cliente_def cliente_create_def Let_def)
qed

lemma upsert_cliente_settled:
  assumes up: "upsert_cliente agora novo_id db dados = Some (db1, c1)"
    and dist: "distinct (map cliente_cpf (clientes db))"
  shows "find (\<lambda>r. cliente_cpf r = cpf dados) (clientes db1) = Some c1 \<and>
         (\<forall>x \<in> set (clientes db1). cliente_cpf x = cpf dados \<longrightarrow> cliente_set t dados x = x\<lparr>cliente_updatedAt := t\<rparr>) \<and>
         distinct (map cliente_cpf (clientes db1)) \<and>
         usuarios db1 = usuarios db \<and> calculos db1 = calculos db"
proof (cases "find (\<lambda>r. cliente_cpf r = cpf dados) (clientes db)")
  case None
  then have nin: "cpf dados \<notin> set (map cliente_cpf (clientes db))"
    using find_None_key [of cliente_cpf "cpf dados" "clientes db"] by blast
  from up None have fresh: "novo_id \<notin> set (map cliente_id (clientes db))"
    by (auto simp: upsert_cliente_def cliente_create_def split: if_splits)
  note eq = upsert_cliente_new [OF None fresh, of agora]
  with up have c1: "c1 = \<lparr>cliente_id = novo_id, cliente_nome = nome dados,
            cliente_telefone = telefone dados, cliente_cpf = cpf dados,
            cliente_email = email dados, cliente_createdAt = agora,
            cliente_updatedAt = agora\<rparr>"
    by simp
  from up eq have db1: "db1 = db\<lparr>clientes := clientes db @ [c1]\<rparr>"
    unfolding c1 by simp
  have "find (\<lambda>r. cliente_cpf r = cpf dados) (clientes db @ [c1]) = Some c1"
    using nin by (intro find_append_new) (simp_all add: c1)
  moreover from nin have "\<forall>x \<in> set (clientes db). cliente_cpf x \<noteq> cpf dados"
    by force
  then have "\<forall>x \<in> set (clientes db @ [c1]). cliente_cpf x = cpf dados \<longrightarrow>
      cliente_set t dados x = x\<lparr>cliente_updatedAt := t\<rparr>"
    by (auto simp: c1 cliente_set_def)
  moreover have "distinct (map cliente_cpf (clientes db @ [c1]))"
    using nin dist by (simp add: c1)
  ultimately show ?thesis by (simp add: db1)
next
  case (Some r)
  let ?g = "cliente_set agora dados"
  let ?m = "map (\<lambda>x. if cliente_cpf x = cpf dados then ?g x else x) (clientes db)"
  from up upsert_cliente_found [OF Some, of agora novo_id]
  have db1: "db1 = db\<lparr>clientes := ?m\<rparr>" and c1: "c1 = ?g r" by simp_all
  have cpf_m: "map cliente_cpf ?m = map cliente_cpf (clientes db)"
    unfolding map_map comp_def by (rule map_cong [OF refl]) (simp add: cliente_set_def)
  have "find (\<lambda>r. cliente_cpf r = cpf dados) ?m =
      map_option ?g (find (\<lambda>r. cliente_cpf r = cpf dados) (clientes db))"
    by (rule find_map_keep) (simp add: cliente_set_def)
  with Some have "find (\<lambda>r. cliente_cpf r = cpf dados) ?m = Some c1"
    by (simp add: c1)
  moreover have "\<forall>x \<in> set ?m. cliente_cpf x = cpf dados \<longrightarrow>
      cliente_set t dados x = x\<lparr>cliente_updatedAt := t\<rparr>"
    by (auto simp: cliente_set_def)
  moreover have "distinct (map cliente_cpf ?m)"
    using dist by (simp only: cpf_m)
  ultimately show ?thesis by (simp add: db1)
qed

text \<open>
  C6. The upsert step of \<open>POST /api/calculos\<close>: when a client with the CPF of the
  request is stored, it is updated in place (same id, same \<open>createdAt\<close>, same position);
  when none is and the generated id is new, a client is appended. When the CPF column holds
  no duplicates and a first upsert succeeds, the client it returns carries the contact
  fields of the request and is the only row with that CPF; a second upsert with the same
  data then succeeds, changes nothing but \<open>updatedAt\<close> of that row, adds no row and
  returns the same client.
\<close>

theorem upsert_cliente_idempotent:
  "(\<forall>r. find (\<lambda>r. cliente_cpf r = cpf dados) (clientes db) = Some r \<longrightarrow>
      upsert_cliente agora novo_id db dados =
        Some (db\<lparr>clientes := map (\<lambda>x. if cliente_cpf x = cpf dados
                                          then cliente_set agora dados x else x) (clientes db)\<rparr>,
              cliente_set agora dados r) \<and>
      cliente_id (cliente_set agora dados r) = cliente_id r \<and>
      cliente_createdAt (cliente_set agora dados r) = cliente_createdAt r) \<and>
   (find (\<lambda>r. cliente_cpf r = cpf dados) (clientes db) = None \<longrightarrow>
    novo_id \<notin> set (map cliente_id (clientes db)) \<longrightarrow>
      upsert_cliente agora novo_id db dados =
        Some (db\<lparr>clientes := clientes db @
                 [\<lparr>cliente_id = novo_id, cliente_nome = nome dados,
                   cliente_telefone = telefone dados, cliente_cpf = cpf dados,
                   cliente_email = email dados, cliente_createdAt = agora,
                   cliente_updatedAt = agora\<rparr>]\<rparr>,
              \<lparr>cliente_id = novo_id, cliente_nome = nome dados,
               cliente_telefone = telefone dados, cliente_cpf = cpf dados,
               cliente_email = email dados, cliente_createdAt = agora,
               cliente_updatedAt = agora\<rparr>)) \<and>
   (distinct (map cliente_cpf (clientes db)) \<longrightarrow>
    upsert_cliente agora novo_id db dados = Some (db1, c1) \<longrightarrow>
      cliente_nome c1 = nome dados \<and> cliente_telefone c1 = telefone dados \<and>
      cliente_cpf c1 = cpf dados \<and> cliente_email c1 = email dados \<and>
      length (filter (\<lambda>r. cliente_cpf r = cpf dados) (clientes db1)) = 1 \<and>
      (\<exists>db2 c2. upsert_cliente agora2 novo_id2 db1 dados = Some (db2, c2) \<and>
         c2 = c1\<lparr>cliente_updatedAt := agora2\<rparr> \<and>
         clientes db2 = map (\<lambda>x. if cliente_cpf x = cpf dados
                                  then x\<lparr>cliente_updatedAt := agora2\<rparr> else x) (clientes db1) \<and>
         usuarios db2 = usuarios db1 \<and> calculos db2 = calculos db1 \<and>
         length (clientes db2) = length (clientes db1) \<and>
         length (filter (\<lambda>r. cliente_cpf r = cpf dados) (clientes db2)) = 1))"
proof (intro conjI allI impI)
  fix r
  assume "find (\<lambda>r. cliente_cpf r = cpf dados) (clientes db) = Some r"
  then show "upsert_cliente agora novo_id db dados =
        Some (db\<lparr>clientes := map (\<lambda>x. if cliente_cpf x = cpf dados
                                          then cliente_set agora dados x else x) (clientes db)\<rparr>,
              cliente_set agora dados r)"
    by (rule upsert_cliente_found)
  show "cliente_id (cliente_set agora dados r) = cliente_id r"
    "cliente_createdAt (cliente_set agora dados r) = cliente_createdAt r"
    by (simp_all add: cliente_set_def)
next
  assume "find (\<lambda>r. cliente_cpf r = cpf dados) (clientes db) = None"
    "novo_id \<notin> set (map cliente_id (clientes db))"
  then show "upsert_cliente agora novo_id db dados =
        Some (db\<lparr>clientes := clientes db @
                 [\<lparr>cliente_id = novo_id, cliente_nome = nome dados,
                   cliente_telefone = telefone dados, cliente_cpf = cpf dados,
                   cliente_email = email dados, cliente_createdAt = agora,
                   cliente_updatedAt = agora\<rparr>]\<rparr>,
              \<lparr>cliente_id = novo_id, cliente_nome = nome dados,
               cliente_telefone = telefone dados, cliente_cpf = cpf dados,
               cliente_email = email dados, cliente_createdAt = agora,
               cliente_updatedAt = agora\<rparr>)"
    by (rule upsert_cliente_new)
next
  assume dist: "distinct (map cliente_cpf (clientes db))"
    and up: "upsert_cliente agora novo_id db dados = Some (db1, c1)"
  from upsert_cliente_settled [OF up dist, of agora2]
  have f1: "find (\<lambda>r. cliente_cpf r = cpf dados) (clientes db1) = Some c1"
    and set1: "\<forall>x \<in> set (clientes db1). cliente_cpf x = cpf dados \<longrightarrow>
        cliente_set agora2 dados x = x\<lparr>cliente_updatedAt := agora2\<rparr>"
    and dist1: "distinct (map cliente_cpf (clientes db1))"
    by simp_all
  from find_Some_key [OF f1] have c1: "c1 \<in> set (clientes db1)" "cliente_cpf c1 = cpf dados"
    by simp_all
  from up show "cliente_nome c1 = nome dados" "cliente_telefone c1 = telefone dados"
    "cliente_email c1 = email dados"
    by (auto simp: upsert_cliente_def cliente_create_def cliente_update_by_cpf_def
        cliente_set_def Let_def split: option.splits if_splits)
  show "cliente_cpf c1 = cpf dados" by (rule c1(2))
  from c1 have "cpf dados \<in> set (map cliente_cpf (clientes db1))" by force
  with dist1 show one: "length (filter (\<lambda>r. cliente_cpf r = cpf dados) (clientes db1)) = 1"
    by (rule filter_key_distinct)
  let ?m = "map (\<lambda>x. if cliente_cpf x = cpf dados then x\<lparr>cliente_updatedAt := agora2\<rparr> else x)
              (clientes db1)"
  from set1 have m: "map (\<lambda>x. if cliente_cpf x = cpf dados then cliente_set agora2 dados x else x)
      (clientes db1) = ?m"
    by (intro map_cong [OF refl]) simp
  from set1 c1 have "cliente_set agora2 dados c1 = c1\<lparr>cliente_updatedAt := agora2\<rparr>" by blast
  with upsert_cliente_found [OF f1, of agora2 novo_id2] m
  have up2: "upsert_cliente agora2 novo_id2 db1 dados =
      Some (db1\<lparr>clientes := ?m\<rparr>, c1\<lparr>cliente_updatedAt := agora2\<rparr>)"
    by simp
  have "filter (\<lambda>r. cliente_cpf r = cpf dados) ?m =
      map (\<lambda>x. x\<lparr>cliente_updatedAt := agora2\<rparr>) (filter (\<lambda>r. cliente_cpf r = cpf dados) (clientes db1))"
    by (simp add: filter_map comp_def)
  then have "length (filter (\<lambda>r. cliente_cpf r = cpf dados) ?m) = 1"
    using one by simp
  with up2 show "\<exists>db2 c2. upsert_cliente agora2 novo_id2 db1 dados = Some (db2, c2) \<and>
         c2 = c1\<lparr>cliente_updatedAt := agora2\<rparr> \<and>
         clientes db2 = map (\<lambda>x. if cliente_cpf x = cpf dados
                                  then x\<lparr>cliente_updatedAt := agora2\<rparr> else x) (clientes db1) \<and>
         usuarios db2 = usuarios db1 \<and> calculos db2 = calculos db1 \<and>
         length (clientes db2) = length (clientes db1) \<and>
         length (filter (\<lambda>r. cliente_cpf r = cpf dados) (clientes db2)) = 1"
    by simp
qed

theorem upsert_cliente_idempotent_witness:
  "distinct (map cliente_cpf (clientes ex_db)) \<and>
   upsert_cliente 10 ''c9'' ex_db
     \<lparr>nome = ''Carla Dias'', telefone = ''31977776666'', cpf = ''11122233344'',
      email = ''carla@z.net''\<rparr> =
     Some (ex_db\<lparr>clientes := [ex_joao, ex_maria,
              \<lparr>cliente_id = ''c9'', cliente_nome = ''Carla Dias'',
               cliente_telefone = ''31977776666'', cliente_cpf = ''11122233344'',
               cliente_email = ''carla@z.net'', cliente_createdAt = 10,
               cliente_updatedAt = 10\<rparr>]\<rparr>,
           \<lparr>cliente_id = ''c9'', cliente_nome = ''Carla Dias'',
            cliente_telefone = ''31977776666'', cliente_cpf = ''11122233344'',
            cliente_email = ''carla@z.net'', cliente_createdAt = 10, cliente_updatedAt = 10\<rparr>) \<and>
   (\<exists>db2 c2.
      upsert_cliente 11 ''c10''
        (ex_db\<lparr>clientes := [ex_joao, ex_maria,
              \<lparr>cliente_id = ''c9'', cliente_nome = ''Carla Dias'',
               cliente_telefone = ''31977776666'', cliente_cpf = ''11122233344'',
               cliente_email = ''carla@z.net'', cliente_createdAt = 10,
               cliente_updatedAt = 10\<rparr>]\<rparr>)
        \<lparr>nome = ''Carla Dias'', telefone = ''31977776666'', cpf = ''11122233344'',
         email = ''carla@z.net''\<rparr> = Some (db2, c2) \<and>
      c2 = \<lparr>cliente_id = ''c9'', cliente_nome = ''Carla Dias'',
            cliente_telefone = ''31977776666'', cliente_cpf = ''11122233344'',
            cliente_email = ''carla@z.net'', cliente_createdAt = 10, cliente_updatedAt = 11\<rparr> \<and>
      length (clientes db2) = 3 \<and>
      length (filter (\<lambda>r. cliente_cpf r = ''11122233344'') (clientes db2)) = 1)"
proof -
  let ?D = "\<lparr>nome = ''Carla Dias'', telefone = ''31977776666'', cpf = ''11122233344'',
      email = ''carla@z.net''\<rparr>"
  let ?C = "\<lparr>cliente_id = ''c9'', cliente_nome = ''Carla Dias'',
            cliente_telefone = ''31977776666'', cliente_cpf = ''11122233344'',
            cliente_email = ''carla@z.net'', cliente_createdAt = 10, cliente_updatedAt = 10\<rparr>"
  let ?db1 = "ex_db\<lparr>clientes := [ex_joao, ex_maria, ?C]\<rparr>"
  have h1: "distinct (map cliente_cpf (clientes ex_db))"
    by (simp add: ex_rows)
  have h2: "upsert_cliente 10 ''c9'' ex_db ?D = Some (?db1, ?C)"
    by (simp add: upsert_cliente_def cliente_create_def Let_def ex_rows)
  from upsert_cliente_idempotent [THEN conjunct2, THEN conjunct2, THEN mp, OF h1, THEN mp, OF h2,
      of 11 "''c10''"]
  obtain db2 c2 where a: "upsert_cliente 11 ''c10'' ?db1 ?D = Some (db2, c2)"
    and b: "c2 = ?C\<lparr>cliente_updatedAt := 11\<rparr>"
    and c: "length (clientes db2) = length (clientes ?db1)"
    and d: "length (filter (\<lambda>r. cliente_cpf r = cpf ?D) (clientes db2)) = 1"
    by blast
  from b have b': "c2 = \<lparr>cliente_id = ''c9'', cliente_nome = ''Carla Dias'',
            cliente_telefone = ''31977776666'', cliente_cpf = ''11122233344'',
            cliente_email = ''carla@z.net'', cliente_createdAt = 10, cliente_updatedAt = 11\<rparr>"
    by simp
  from c have c': "length (clientes db2) = 3" by simp
  from d have d': "length (filter (\<lambda>r. cliente_cpf r = ''11122233344'') (clientes db2)) = 1"
    by simp
  from h1 h2 a b' c' d' show ?thesis by blast
qed

section \<open>Updating a user\<close>

lemma usuario_update_ok:
  assumes f: "find (\<lambda>u. usuario_id u = i) (usuarios db) = Some u"
    and dist: "distinct (map usuario_email (usuarios db))"
    and free: "e = usuario_email u \<or> e \<notin> set (map usuario_email (usuarios db))"
  shows "\<exists>db' u'. usuario_update db agora i n e r s = Some (db', u') \<and>
           find (\<lambda>u. usuario_id u = i) (usuarios db') = Some u' \<and>
           u' = u\<lparr>usuario_nome := n, usuario_email := e, usuario_role := r,
                  usuario_senha := (case s of None \<Rightarrow> usuario_senha u | Some h \<Rightarrow> h),
                  usuario_updatedAt := agora\<rparr>"
proof -
  from find_Some_key [OF f] have u: "u \<in> set (usuarios db)" "usuario_id u = i" by simp_all
  have no: "\<not> list_ex (\<lambda>v. usuario_id v \<noteq> i \<and> usuario_email v = e) (usuarios db)"
  proof
    assume "list_ex (\<lambda>v. usuario_id v \<noteq> i \<and> usuario_email v = e) (usuarios db)"
    then obtain v where v: "v \<in> set (usuarios db)" "usuario_id v \<noteq> i" "usuario_email v = e"
      by (auto simp: list_ex_iff)
    with free have "usuario_email v = usuario_email u" by force
    moreover from dist have "inj_on usuario_email (set (usuarios db))"
      by (simp add: distinct_map)
    ultimately have "v = u" using u(1) v(1) by (auto dest: inj_onD)
    with u(2) v(2) show False by simp
  qed
  let ?upd = "\<lambda>v. v\<lparr>usuario_nome := n, usuario_email := e, usuario_role := r,
                      usuario_senha := (case s of None \<Rightarrow> usuario_senha v | Some h \<Rightarrow> h),
                      usuario_updatedAt := agora\<rparr>"
  have "find (\<lambda>u. usuario_id u = i)
          (map (\<lambda>v. if usuario_id v = i then ?upd v else v) (usuarios db)) =
        map_option ?upd (find (\<lambda>u. usuario_id u = i) (usuarios db))"
    by (rule find_map_keep) simp
  with f no show ?thesis
    by (simp add: usuario_update_def Let_def)
qed

text \<open>
  C10. For every request that the two middlewares let through as an admin, every stored
  user \<open>u\<close> with the id of the request and every body that passes
  \<open>usuarioAdminUpdateSchema\<close> and whose e-mail is \<open>u\<close>'s own or unused (the e-mail column
  holding no duplicates): \<open>PUT /api/usuarios/:id\<close> answers 200 and stores the name, the
  e-mail and the role of the body (\<open>user\<close> when the role is absent). The stored digest is
  unchanged when \<open>senha\<close> is absent or empty; it differs from the old one only when a
  non-empty \<open>senha\<close> was sent, and then it is the hash of that \<open>senha\<close>. (A \<open>senha\<close> of
  white space only is not hashed either.) Whatever the response is, a request whose
  \<open>senha\<close> is absent or empty leaves every stored digest as it was.
\<close>

theorem usuarios_put_senha:
  "(upd_senha b = None \<or> upd_senha b = Some [] \<longrightarrow>
      map usuario_senha
        (usuarios (fst (usuarios_put jwt_verify is_email bcrypt_hash agora db authorization i b))) =
      map usuario_senha (usuarios db)) \<and>
   (authMiddleware jwt_verify db authorization =
     (Inr ru :: usuario_select response + req_usuario) \<longrightarrow>
   ru_role ru = Admin \<longrightarrow>
   usuarioAdminUpdateSchema is_email b \<longrightarrow>
   find (\<lambda>u. usuario_id u = i) (usuarios db) = Some u \<longrightarrow>
   distinct (map usuario_email (usuarios db)) \<longrightarrow>
   (upd_email b = usuario_email u \<or> upd_email b \<notin> set (map usuario_email (usuarios db))) \<longrightarrow>
   (\<exists>db' u'.
      usuarios_put jwt_verify is_email bcrypt_hash agora db authorization i b =
        (db', ok 200 (Some UsuarioAtualizado) (Some (select_usuario u'))) \<and>
      find (\<lambda>u. usuario_id u = i) (usuarios db') = Some u' \<and>
      usuario_nome u' = upd_nome b \<and> usuario_email u' = upd_email b \<and>
      usuario_role u' = (case upd_role b of None \<Rightarrow> User | Some x \<Rightarrow> x) \<and>
      (upd_senha b = None \<or> upd_senha b = Some [] \<longrightarrow> usuario_senha u' = usuario_senha u) \<and>
      (\<forall>s. upd_senha b = Some s \<longrightarrow>
         usuario_senha u' = (if trim s = [] then usuario_senha u else bcrypt_hash s)) \<and>
      (usuario_senha u' \<noteq> usuario_senha u \<longrightarrow>
         (\<exists>s. upd_senha b = Some s \<and> s \<noteq> [] \<and> usuario_senha u' = bcrypt_hash s))))"
proof (intro conjI impI)
  assume "upd_senha b = None \<or> upd_senha b = Some []"
  then have "map usuario_senha
      (usuarios (fst (usuarios_put_handler is_email bcrypt_hash agora db i b))) =
      map usuario_senha (usuarios db)"
    by (auto simp: usuarios_put_handler_def usuario_update_def Let_def comp_def
        split: option.splits if_splits)
  then show "map usuario_senha
        (usuarios (fst (usuarios_put jwt_verify is_email bcrypt_hash agora db authorization i b))) =
      map usuario_senha (usuarios db)"
    by (simp add: usuarios_put_def split: sum.splits option.splits)
next
  assume auth: "authMiddleware jwt_verify db authorization =
     (Inr ru :: usuario_select response + req_usuario)"
    and adm: "ru_role ru = Admin"
    and valid: "usuarioAdminUpdateSchema is_email b"
    and f: "find (\<lambda>u. usuario_id u = i) (usuarios db) = Some u"
    and dist: "distinct (map usuario_email (usuarios db))"
    and free: "upd_email b = usuario_email u \<or> upd_email b \<notin> set (map usuario_email (usuarios db))"
  have next1: "adminMiddleware db ru = (None :: usuario_select response option)"
    using adminMiddleware_admin [OF auth adm] .
  define r where "r = (case upd_role b of None \<Rightarrow> User | Some x \<Rightarrow> x)"
  define senha where "senha = (case upd_senha b of None \<Rightarrow> None
      | Some s \<Rightarrow> if s \<noteq> [] \<and> trim s \<noteq> [] then Some (bcrypt_hash s) else None)"
  from usuario_update_ok [OF f dist free, of agora "upd_nome b" r senha]
  obtain db' u' where upd: "usuario_update db agora i (upd_nome b) (upd_email b) r senha = Some (db', u')"
    and f': "find (\<lambda>u. usuario_id u = i) (usuarios db') = Some u'"
    and u': "u' = u\<lparr>usuario_nome := upd_nome b, usuario_email := upd_email b, usuario_role := r,
                  usuario_senha := (case senha of None \<Rightarrow> usuario_senha u | Some h \<Rightarrow> h),
                  usuario_updatedAt := agora\<rparr>"
    by blast
  from free have chk: "\<not> (upd_email b \<noteq> usuario_email u \<and>
      find (\<lambda>u. usuario_email u = upd_email b) (usuarios db) \<noteq> None)"
    using find_None_key [of usuario_email "upd_email b" "usuarios db"] by auto
  have "usuarios_put jwt_verify is_email bcrypt_hash agora db authorization i b =
      usuarios_put_handler is_email bcrypt_hash agora db i b"
    by (simp add: usuarios_put_def auth next1)
  also from valid f chk upd
  have "\<dots> = (db', ok 200 (Some UsuarioAtualizado) (Some (select_usuario u')))"
    by (auto simp: usuarios_put_handler_def Let_def r_def senha_def)
  finally have res: "usuarios_put jwt_verify is_email bcrypt_hash agora db authorization i b =
      (db', ok 200 (Some UsuarioAtualizado) (Some (select_usuario u')))" .
  have trim_nil: "trim [] = []" by (simp add: trim_def)
  have s1: "upd_senha b = None \<or> upd_senha b = Some [] \<longrightarrow> usuario_senha u' = usuario_senha u"
    by (auto simp: u' senha_def)
  have s2: "\<forall>s. upd_senha b = Some s \<longrightarrow>
         usuario_senha u' = (if trim s = [] then usuario_senha u else bcrypt_hash s)"
    using trim_nil by (auto simp: u' senha_def)
  have s3: "usuario_senha u' \<noteq> usuario_senha u \<longrightarrow>
         (\<exists>s. upd_senha b = Some s \<and> s \<noteq> [] \<and> usuario_senha u' = bcrypt_hash s)"
    by (auto simp: u' senha_def split: option.splits if_splits)
  have "usuario_nome u' = upd_nome b" "usuario_email u' = upd_email b"
    "usuario_role u' = (case upd_role b of None \<Rightarrow> User | Some x \<Rightarrow> x)"
    by (simp_all add: u' r_def)
  with res f' s1 s2 s3 show "\<exists>db' u'.
      usuarios_put jwt_verify is_email bcrypt_hash agora db authorization i b =
        (db', ok 200 (Some UsuarioAtualizado) (Some (select_usuario u'))) \<and>
      find (\<lambda>u. usuario_id u = i) (usuarios db') = Some u' \<and>
      usuario_nome u' = upd_nome b \<and> usuario_email u' = upd_email b \<and>
      usuario_role u' = (case upd_role b of None \<Rightarrow> User | Some x \<Rightarrow> x) \<and>
      (upd_senha b = None \<or> upd_senha b = Some [] \<longrightarrow> usuario_senha u' = usuario_senha u) \<and>
      (\<forall>s. upd_senha b = Some s \<longrightarrow>
         usuario_senha u' = (if trim s = [] then usuario_senha u else bcrypt_hash s)) \<and>
      (usuario_senha u' \<noteq> usuario_senha u \<longrightarrow>
         (\<exists>s. upd_senha b = Some s \<and> s \<noteq> [] \<and> usuario_senha u' = bcrypt_hash s))"
    by blast
qed

theorem usuarios_put_senha_witness:
  "authMiddleware ex_jwt_verify ex_db (Some ''Bearer t0'') =
     (Inr \<lparr>ru_id = ''u0'', ru_nome = ''Root'', ru_email = ''root@x.com'', ru_role = Admin\<rparr>
        :: usuario_select response + req_usuario) \<and>
   usuarioAdminUpdateSchema ex_is_email
     \<lparr>upd_nome = ''Ana Lima'', upd_email = ''ana.lima@x.com'', upd_senha = Some [],
      upd_role = None\<rparr> \<and>
   find (\<lambda>u. usuario_id u = ''u1'') (usuarios ex_db) = Some ex_ana \<and>
   distinct (map usuario_email (usuarios ex_db)) \<and>
   ''ana.lima@x.com'' \<notin> set (map usuario_email (usuarios ex_db)) \<and>
   (\<exists>db' u'.
      usuarios_put ex_jwt_verify ex_is_email ex_bcrypt_hash 20 ex_db (Some ''Bearer t0'') ''u1''
        \<lparr>upd_nome = ''Ana Lima'', upd_email = ''ana.lima@x.com'', upd_senha = Some [],
         upd_role = None\<rparr> =
        (db', ok 200 (Some UsuarioAtualizado) (Some (select_usuario u'))) \<and>
      usuario_nome u' = ''Ana Lima'' \<and> usuario_email u' = ''ana.lima@x.com'' \<and>
      usuario_role u' = User \<and> usuario_senha u' = ''h1'') \<and>
   (\<exists>db' u'.
      usuarios_put ex_jwt_verify ex_is_email ex_bcrypt_hash 20 ex_db (Some ''Bearer t0'') ''u1''
        \<lparr>upd_nome = ''Ana Lima'', upd_email = ''ana.lima@x.com'', upd_senha = Some ''segredo9'',
         upd_role = Some Admin\<rparr> =
        (db', ok 200 (Some UsuarioAtualizado) (Some (select_usuario u'))) \<and>
      usuario_role u' = Admin \<and> usuario_senha u' = ex_bcrypt_hash ''segredo9'')"
proof -
  let ?B = "\<lparr>upd_nome = ''Ana Lima'', upd_email = ''ana.lima@x.com'', upd_senha = Some [],
      upd_role = None\<rparr>"
  let ?B2 = "\<lparr>upd_nome = ''Ana Lima'', upd_email = ''ana.lima@x.com'',
      upd_senha = Some ''segredo9'', upd_role = Some Admin\<rparr>"
  have h1: "authMiddleware ex_jwt_verify ex_db (Some ''Bearer t0'') =
     (Inr \<lparr>ru_id = ''u0'', ru_nome = ''Root'', ru_email = ''root@x.com'', ru_role = Admin\<rparr>
        :: usuario_select response + req_usuario)"
    by (rule ex_auth_root)
  have h2: "ru_role \<lparr>ru_id = ''u0'', ru_nome = ''Root'', ru_email = ''root@x.com'',
      ru_role = Admin\<rparr> = Admin"
    by simp
  have h3: "usuarioAdminUpdateSchema ex_is_email ?B" "usuarioAdminUpdateSchema ex_is_email ?B2"
    by (simp_all add: usuarioAdminUpdateSchema_def ex_is_email_def)
  have h4: "find (\<lambda>u. usuario_id u = ''u1'') (usuarios ex_db) = Some ex_ana"
    by (simp add: ex_rows)
  have h5: "distinct (map usuario_email (usuarios ex_db))"
    by (simp add: ex_rows)
  have h6: "''ana.lima@x.com'' \<notin> set (map usuario_email (usuarios ex_db))"
    by (simp add: ex_rows)
  have h7: "upd_email ?B = usuario_email ex_ana \<or>
      upd_email ?B \<notin> set (map usuario_email (usuarios ex_db))"
    "upd_email ?B2 = usuario_email ex_ana \<or>
      upd_email ?B2 \<notin> set (map usuario_email (usuarios ex_db))"
    using h6 by simp_all
  have tr: "trim ''segredo9'' \<noteq> []"
    by (simp add: trim_def is_white_space_def)
  from usuarios_put_senha [THEN conjunct2, THEN mp, OF h1, THEN mp, OF h2, THEN mp, OF h3(1),
      THEN mp, OF h4, THEN mp, OF h5, THEN mp, OF h7(1), of ex_bcrypt_hash 20]
  obtain db' u' where
    "usuarios_put ex_jwt_verify ex_is_email ex_bcrypt_hash 20 ex_db (Some ''Bearer t0'') ''u1'' ?B =
        (db', ok 200 (Some UsuarioAtualizado) (Some (select_usuario u')))"
    "usuario_nome u' = ''Ana Lima''" "usuario_email u' = ''ana.lima@x.com''"
    "usuario_role u' = User" "usuario_senha u' = usuario_senha ex_ana"
    by auto
  then have a: "\<exists>db' u'.
      usuarios_put ex_jwt_verify ex_is_email ex_bcrypt_hash 20 ex_db (Some ''Bearer t0'') ''u1'' ?B =
        (db', ok 200 (Some UsuarioAtualizado) (Some (select_usuario u'))) \<and>
      usuario_nome u' = ''Ana Lima'' \<and> usuario_email u' = ''ana.lima@x.com'' \<and>
      usuario_role u' = User \<and> usuario_senha u' = ''h1''"
    by (auto simp: ex_ana_def)
  from usuarios_put_senha [THEN conjunct2, THEN mp, OF h1, THEN mp, OF h2, THEN mp, OF h3(2),
      THEN mp, OF h4, THEN mp, OF h5, THEN mp, OF h7(2), of ex_bcrypt_hash 20] tr
  have b: "\<exists>db' u'.
      usuarios_put ex_jwt_verify ex_is_email ex_bcrypt_hash 20 ex_db (Some ''Bearer t0'') ''u1'' ?B2 =
        (db', ok 200 (Some UsuarioAtualizado) (Some (select_usuario u'))) \<and>
      usuario_role u' = Admin \<and> usuario_senha u' = ex_bcrypt_hash ''segredo9''"
    by auto
  from h1 h3(1) h4 h5 h6 a b show ?thesis by blast
qed

end
